theory Spec2Isabelle
  imports Main
begin

section \<open>Keyboard navigation of the block editor (navigation.js)\<close>

text \<open>
  The module \<open>Blockly.navigation\<close> keeps five variables of its own (cursor, marker,
  current category, flyout block, current state) and drives a connection graph, a toolbox
  and a flyout whose classes (\<open>Blockly.Connection\<close>, \<open>Blockly.Block\<close>, \<open>Blockly.Cursor\<close>,
  \<open>Blockly.ASTNode\<close>, the toolbox tree, the flyout) are defined in other files of the
  editor's core. The embedding threads an explicit state: the module's variables are
  fields of the record \<open>nav\<close>, everything behind the other classes is one abstract world
  \<open>'w\<close>, and each of their methods that the module calls is a field of a record of
  operations over \<open>'w\<close> that every function takes as a parameter. Theorems hold for
  every such record, unless they say what they rely on.

  An uncaught JavaScript \<open>TypeError\<close> (a method call on \<open>null\<close>) is the result
  \<open>TypeError\<close>; the state at the moment of the throw is returned with it, since the
  effects before a throw persist.

  Names are the source's, without the trailing underscore of its private names
  (\<open>moveAndConnect\<close> is \<open>Blockly.navigation.moveAndConnect_\<close>), which Isabelle
  does not accept.
\<close>

subsection \<open>Data\<close>

type_synonym connection = nat
type_synonym block = nat
type_synonym field = nat
type_synonym category = nat
type_synonym toolbox = nat
type_synonym flyout = nat
type_synonym workspace = nat
type_synonym coordinate = "int \<times> int"

text \<open>\<open>connection.type\<close>: the four values \<open>insertBlock\<close> switches over.\<close>

datatype connection_type = INPUT_VALUE | OUTPUT_VALUE | NEXT_STATEMENT | PREVIOUS_STATEMENT

text \<open>
  \<open>Blockly.ASTNode\<close>: a type tag and a location; a workspace node also has a coordinate.
  The four connection tags \<open>INPUT\<close>, \<open>OUTPUT\<close>, \<open>NEXT\<close>, \<open>PREVIOUS\<close> are the tags for
  which \<open>isConnection()\<close> holds; \<open>getType()\<close> answers \<open>CONNECTION t\<close> for the tag \<open>t\<close>.
  The location of a field node is a field, of a block or stack node a block, of a
  connection node a connection.
\<close>

datatype connection_tag = INPUT | OUTPUT | NEXT | PREVIOUS

datatype astnode =
    FieldNode field
  | BlockNode block
  | ConnectionNode connection_tag connection
  | StackNode block
  | WorkspaceNode workspace coordinate

datatype astnode_type = FIELD | BLOCK | CONNECTION connection_tag | STACK | WORKSPACE

fun getType :: "astnode \<Rightarrow> astnode_type" where
  "getType (FieldNode f) = FIELD"
| "getType (BlockNode b) = BLOCK"
| "getType (ConnectionNode t c) = CONNECTION t"
| "getType (StackNode b) = STACK"
| "getType (WorkspaceNode ws xy) = WORKSPACE"

fun isConnection :: "astnode \<Rightarrow> bool" where
  "isConnection (ConnectionNode t c) = True"
| "isConnection n = False"

text \<open>\<open>Blockly.navigation.STATE_FLYOUT\<close>, \<open>STATE_WS\<close>, \<open>STATE_TOOLBOX\<close>: the only values
  \<open>currentState_\<close> is ever assigned.\<close>

datatype focus = STATE_FLYOUT | STATE_WS | STATE_TOOLBOX

datatype 'a completion = Normal 'a | TypeError

subsection \<open>The external classes, as operations over the world\<close>

text \<open>
  \<open>Blockly.Connection\<close> and \<open>Blockly.Block\<close>. Properties the module reads
  (\<open>targetConnection\<close>, \<open>previousConnection\<close>, \<open>inputList[i].connection\<close>, \<open>type\<close>) are
  queries; methods that change the graph return the new world. These methods are taken
  not to throw. \<open>conn_canConnectWithReason G w d m\<close> is
  \<open>d.canConnectWithReason_(m)\<close>, \<open>conn_connect G d m\<close> is \<open>d.connect(m)\<close>.
  \<open>block_inputList\<close> gives, for each input of the block in declaration order, its
  \<open>connection\<close> property, which is \<open>null\<close> (\<open>None\<close>) for an input that has no
  connection, such as a dummy input that only holds a label or a field.
\<close>

record 'w graph_ops =
  conn_getSourceBlock :: "connection \<Rightarrow> block"
  conn_isSuperior :: "connection \<Rightarrow> bool"
  conn_type :: "connection \<Rightarrow> connection_type"
  conn_targetConnection :: "'w \<Rightarrow> connection \<Rightarrow> connection option"
  conn_canConnectWithReason :: "'w \<Rightarrow> connection \<Rightarrow> connection \<Rightarrow> nat"
  conn_reasonText :: "nat \<Rightarrow> string"
  conn_disconnect :: "connection \<Rightarrow> 'w \<Rightarrow> 'w"
  conn_connect :: "connection \<Rightarrow> connection \<Rightarrow> 'w \<Rightarrow> 'w"
  conn_bumpAwayFrom :: "connection \<Rightarrow> connection \<Rightarrow> 'w \<Rightarrow> 'w"
  block_previousConnection :: "'w \<Rightarrow> block \<Rightarrow> connection option"
  block_nextConnection :: "'w \<Rightarrow> block \<Rightarrow> connection option"
  block_outputConnection :: "'w \<Rightarrow> block \<Rightarrow> connection option"
  block_inputList :: "'w \<Rightarrow> block \<Rightarrow> connection option list"
  block_isShadow :: "'w \<Rightarrow> block \<Rightarrow> bool"
  block_getParent :: "'w \<Rightarrow> block \<Rightarrow> block option"
  block_getRootBlock :: "'w \<Rightarrow> block \<Rightarrow> block"
  block_getDescendants :: "'w \<Rightarrow> block \<Rightarrow> block list"
  block_unplug :: "block \<Rightarrow> 'w \<Rightarrow> 'w"
  block_moveTo :: "block \<Rightarrow> coordinate \<Rightarrow> 'w \<Rightarrow> 'w"
  block_positionNearConnection :: "block \<Rightarrow> connection \<Rightarrow> connection \<Rightarrow> 'w \<Rightarrow> 'w"
  block_bringToFront :: "block \<Rightarrow> 'w \<Rightarrow> 'w"

text \<open>\<open>Blockly.Connection.CAN_CONNECT\<close>.\<close>

definition CAN_CONNECT :: nat where
  "CAN_CONNECT = 0"

text \<open>
  Modelled from the spec: \<open>Connection.isConnected\<close> (connection.js is missing). A
  connection has at most one target, the connection it is currently joined to; it is
  connected when the target is set.
\<close>

definition isConnected :: "'w graph_ops \<Rightarrow> 'w \<Rightarrow> connection \<Rightarrow> bool" where
  "isConnected G w c = (conn_targetConnection G w c \<noteq> None)"

text \<open>
  Modelled from the spec: \<open>Connection.checkConnection_\<close> (connection.js is missing).
  The compatibility check raises a structured reason: \<open>d.checkConnection_(m)\<close> throws the
  text of the reason \<open>d.canConnectWithReason_(m)\<close> unless that reason is \<open>CAN_CONNECT\<close>.
  \<open>Some e\<close> is the thrown value, \<open>None\<close> a normal return.
\<close>

definition checkConnection :: "'w graph_ops \<Rightarrow> 'w \<Rightarrow> connection \<Rightarrow> connection \<Rightarrow> string option" where
  "checkConnection G w d m =
     (if conn_canConnectWithReason G w d m = CAN_CONNECT then None
      else Some (conn_reasonText G (conn_canConnectWithReason G w d m)))"

text \<open>
  The toolbox tree, the flyout, the cursor's moves, the field editor, the selection and
  \<open>ASTNode.createConnectionNode\<close>'s choice of tag. \<open>ws_getToolbox\<close> and \<open>ws_getFlyout\<close>
  return \<open>None\<close> for \<open>null\<close>; \<open>flyout_getTopBlocks\<close> is
  \<open>flyout.getWorkspace().getTopBlocks()\<close>, \<open>None\<close> when \<open>getWorkspace()\<close> is \<open>null\<close>.
  The cursor's workspace is the main workspace.
\<close>

record 'w ui_ops =
  ws_getToolbox :: "'w \<Rightarrow> toolbox option"
  ws_getFlyout :: "'w \<Rightarrow> flyout option"
  toolbox_flyout :: "'w \<Rightarrow> toolbox \<Rightarrow> flyout option"
  tree_firstChild :: "'w \<Rightarrow> toolbox \<Rightarrow> category option"
  tree_setSelectedItem :: "toolbox \<Rightarrow> category option \<Rightarrow> 'w \<Rightarrow> 'w"
  flyout_getTopBlocks :: "'w \<Rightarrow> flyout \<Rightarrow> block list option"
  flyout_isVisible :: "'w \<Rightarrow> flyout \<Rightarrow> bool"
  flyout_createBlock :: "flyout \<Rightarrow> block option \<Rightarrow> 'w \<Rightarrow> block \<times> 'w"
  flyout_hide :: "flyout \<Rightarrow> 'w \<Rightarrow> 'w"
  block_render :: "block \<Rightarrow> 'w \<Rightarrow> 'w"
  block_setConnectionsHidden :: "block \<Rightarrow> bool \<Rightarrow> 'w \<Rightarrow> 'w"
  block_unselect :: "block \<Rightarrow> 'w \<Rightarrow> 'w"
  selected :: "'w \<Rightarrow> block option"
  cat_getNextShownNode :: "'w \<Rightarrow> category \<Rightarrow> category option"
  cat_getPreviousShownNode :: "'w \<Rightarrow> category \<Rightarrow> category option"
  cat_select :: "category \<Rightarrow> 'w \<Rightarrow> 'w"
  cat_hasChildren :: "'w \<Rightarrow> category \<Rightarrow> bool"
  cat_getExpanded :: "'w \<Rightarrow> category \<Rightarrow> bool"
  cat_setExpanded :: "category \<Rightarrow> bool \<Rightarrow> 'w \<Rightarrow> 'w"
  cat_isUserCollapsible :: "'w \<Rightarrow> category \<Rightarrow> bool"
  cat_getFirstChild :: "'w \<Rightarrow> category \<Rightarrow> category"
  cat_getParent :: "'w \<Rightarrow> category \<Rightarrow> category option"
  cat_getTree :: "'w \<Rightarrow> category \<Rightarrow> category"
  cursor_prev :: "'w \<Rightarrow> astnode option \<Rightarrow> astnode option"
  cursor_next :: "'w \<Rightarrow> astnode option \<Rightarrow> astnode option"
  cursor_in :: "'w \<Rightarrow> astnode option \<Rightarrow> astnode option"
  cursor_out :: "'w \<Rightarrow> astnode option \<Rightarrow> astnode option"
  field_showEditor :: "field \<Rightarrow> 'w \<Rightarrow> 'w"
  connection_tag_of :: "'w \<Rightarrow> connection \<Rightarrow> connection_tag"

subsection \<open>The module's state\<close>

text \<open>
  \<open>cursor\<close> and \<open>marker\<close> hold the current node of the cursor and of the marker
  (\<open>getCurNode()\<close>, \<open>None\<close> for \<open>null\<close>); both objects are taken to have been set with
  \<open>setCursor\<close> and \<open>setMarker\<close>. \<open>logged\<close> collects the messages given to
  \<open>Blockly.navigation.log\<close> and \<open>warn\<close>, each with its level, whichever sink
  (\<open>loggingCallback\<close> or the console) receives them.
\<close>

record 'w nav =
  world :: 'w
  cursor :: "astnode option"
  cursorShown :: bool
  marker :: "astnode option"
  markerShown :: bool
  currentCategory :: "category option"
  flyoutBlock :: "block option"
  currentState :: focus
  keyboardAccessibilityMode :: bool
  cursorWorkspace :: workspace
  logged :: "(string \<times> string) list"

definition log :: "string \<Rightarrow> 'w nav \<Rightarrow> 'w nav" where
  "log msg s = s\<lparr>logged := logged s @ [(''log'', msg)]\<rparr>"

definition warn :: "string \<Rightarrow> 'w nav \<Rightarrow> 'w nav" where
  "warn msg s = s\<lparr>logged := logged s @ [(''warn'', msg)]\<rparr>"

text \<open>
  Modelled from the spec: \<open>Cursor.setLocation\<close> and \<open>Cursor.hide\<close> (cursor.js is
  missing), for the cursor and for the marker. \<open>setLocation\<close> accepts any location or
  \<open>null\<close>, stores it and makes it visible; \<open>hide\<close> clears visibility without clearing the
  location.
\<close>

definition cursor_setLocation :: "astnode option \<Rightarrow> 'w nav \<Rightarrow> 'w nav" where
  "cursor_setLocation loc s = s\<lparr>cursor := loc, cursorShown := True\<rparr>"

definition cursor_hide :: "'w nav \<Rightarrow> 'w nav" where
  "cursor_hide s = s\<lparr>cursorShown := False\<rparr>"

definition marker_setLocation :: "astnode option \<Rightarrow> 'w nav \<Rightarrow> 'w nav" where
  "marker_setLocation loc s = s\<lparr>marker := loc, markerShown := True\<rparr>"

definition marker_hide :: "'w nav \<Rightarrow> 'w nav" where
  "marker_hide s = s\<lparr>markerShown := False\<rparr>"

definition createConnectionNode :: "'w ui_ops \<Rightarrow> 'w \<Rightarrow> connection \<Rightarrow> astnode" where
  "createConnectionNode U w c = ConnectionNode (connection_tag_of U w c) c"

definition markAtCursor :: "'w nav \<Rightarrow> 'w nav" where
  "markAtCursor s = marker_setLocation (cursor s) s"

definition removeMark :: "'w nav \<Rightarrow> 'w nav" where
  "removeMark s = marker_hide (marker_setLocation None s)"

definition getTopNode :: "'w graph_ops \<Rightarrow> 'w ui_ops \<Rightarrow> 'w \<Rightarrow> block \<Rightarrow> astnode" where
  "getTopNode G U w b =
     (let prevConnection = block_previousConnection G w b;
          outConnection = block_outputConnection G w b;
          topConnection = (case prevConnection of Some p \<Rightarrow> Some p | None \<Rightarrow> outConnection)
      in case topConnection of
           Some c \<Rightarrow> createConnectionNode U w c
         | None \<Rightarrow> BlockNode b)"

subsection \<open>Connecting\<close>

definition getInferiorConnection :: "'w graph_ops \<Rightarrow> 'w \<Rightarrow> connection \<Rightarrow> connection option" where
  "getInferiorConnection G w c =
     (let b = conn_getSourceBlock G c
      in if \<not> conn_isSuperior G c then Some c
         else if block_previousConnection G w b \<noteq> None then block_previousConnection G w b
         else if block_outputConnection G w b \<noteq> None then block_outputConnection G w b
         else None)"

definition getSuperiorConnection :: "'w graph_ops \<Rightarrow> 'w \<Rightarrow> connection \<Rightarrow> connection option" where
  "getSuperiorConnection G w c =
     (if conn_isSuperior G c then Some c
      else if conn_targetConnection G w c \<noteq> None then conn_targetConnection G w c
      else None)"

text \<open>
  \<open>disconnectChild\<close> calls \<open>disconnect()\<close> on the result of \<open>getInferiorConnection\<close>,
  which may be \<open>null\<close>: that call is the \<open>TypeError\<close> branch.
\<close>

definition disconnectChild :: "'w graph_ops \<Rightarrow> 'w nav \<Rightarrow> connection \<Rightarrow> connection \<Rightarrow> unit completion \<times> 'w nav" where
  "disconnectChild G s movingConnection destConnection =
     (let w = world s;
          movingBlock = conn_getSourceBlock G movingConnection;
          destBlock = conn_getSourceBlock G destConnection
      in if block_getRootBlock G w movingBlock = block_getRootBlock G w destBlock then
           (if destBlock \<in> set (block_getDescendants G w movingBlock) then
              (case getInferiorConnection G w destConnection of
                 None \<Rightarrow> (TypeError, s)
               | Some c \<Rightarrow> (Normal (), s\<lparr>world := conn_disconnect G c w\<rparr>))
            else
              (case getInferiorConnection G w movingConnection of
                 None \<Rightarrow> (TypeError, s)
               | Some c \<Rightarrow> (Normal (), s\<lparr>world := conn_disconnect G c w\<rparr>)))
         else (Normal (), s))"

definition moveAndConnect :: "'w graph_ops \<Rightarrow> 'w nav \<Rightarrow> connection option \<Rightarrow> connection option \<Rightarrow> bool completion \<times> 'w nav" where
  "moveAndConnect G s movingConnection destConnection =
     (case (movingConnection, destConnection) of
        (Some m, Some d) \<Rightarrow>
          (let movingBlock = conn_getSourceBlock G m
           in if conn_canConnectWithReason G (world s) d m = CAN_CONNECT then
                (case disconnectChild G s m d of
                   (TypeError, s1) \<Rightarrow> (TypeError, s1)
                 | (Normal u, s1) \<Rightarrow>
                     (let s2 = (if \<not> conn_isSuperior G d
                                then s1\<lparr>world := block_positionNearConnection G
                                        (block_getRootBlock G (world s1) movingBlock) m d (world s1)\<rparr>
                                else s1)
                      in (Normal True, s2\<lparr>world := conn_connect G d m (world s2)\<rparr>)))
              else (Normal False, s))
      | _ \<Rightarrow> (Normal False, s))"

definition connect :: "'w graph_ops \<Rightarrow> 'w nav \<Rightarrow> connection option \<Rightarrow> connection option \<Rightarrow> bool completion \<times> 'w nav" where
  "connect G s movingConnection destConnection =
     (case (movingConnection, destConnection) of
        (Some m, Some d) \<Rightarrow>
          (let movingInferior = getInferiorConnection G (world s) m;
               destSuperior = getSuperiorConnection G (world s) d;
               movingSuperior = getSuperiorConnection G (world s) m;
               destInferior = getInferiorConnection G (world s) d
           in case (if movingInferior \<noteq> None \<and> destSuperior \<noteq> None
                    then moveAndConnect G s movingInferior destSuperior
                    else (Normal False, s)) of
                (TypeError, s1) \<Rightarrow> (TypeError, s1)
              | (Normal True, s1) \<Rightarrow> (Normal True, s1)
              | (Normal False, s1) \<Rightarrow>
                  (case (if movingSuperior \<noteq> None \<and> destInferior \<noteq> None
                         then moveAndConnect G s1 movingSuperior destInferior
                         else (Normal False, s1)) of
                     (TypeError, s2) \<Rightarrow> (TypeError, s2)
                   | (Normal True, s2) \<Rightarrow> (Normal True, s2)
                   | (Normal False, s2) \<Rightarrow>
                       (case moveAndConnect G s2 (Some m) (Some d) of
                          (TypeError, s3) \<Rightarrow> (TypeError, s3)
                        | (Normal True, s3) \<Rightarrow> (Normal True, s3)
                        | (Normal False, s3) \<Rightarrow>
                            (case checkConnection G (world s3) d m of
                               Some e \<Rightarrow>
                                 (Normal False, warn (''Connection failed with error: '' @ e) s3)
                             | None \<Rightarrow> (Normal False, s3)))))
      | _ \<Rightarrow> (Normal False, s))"

text \<open>
  \<open>insertBlock\<close>, destination of type \<open>OUTPUT_VALUE\<close>: the loop over
  \<open>block.inputList\<close>. The list is read once, since an attempt that fails leaves the
  state as it was. The loop reads \<open>inputConnection.type\<close> without testing
  \<open>inputConnection\<close>: on an input whose connection is \<open>null\<close> it ends in a
  \<open>TypeError\<close>.
\<close>

fun insertBlock_inputs :: "'w graph_ops \<Rightarrow> 'w nav \<Rightarrow> connection option list \<Rightarrow> connection \<Rightarrow> bool completion \<times> 'w nav" where
  "insertBlock_inputs G s [] d = (Normal False, s)"
| "insertBlock_inputs G s (None # rest) d = (TypeError, s)"
| "insertBlock_inputs G s (Some inputConnection # rest) d =
     (if conn_type G inputConnection = INPUT_VALUE then
        (case moveAndConnect G s (Some inputConnection) (Some d) of
           (TypeError, s1) \<Rightarrow> (TypeError, s1)
         | (Normal True, s1) \<Rightarrow> (Normal True, s1)
         | (Normal False, s1) \<Rightarrow> insertBlock_inputs G s1 rest d)
      else insertBlock_inputs G s rest d)"

definition insertBlock :: "'w graph_ops \<Rightarrow> 'w nav \<Rightarrow> block \<Rightarrow> connection \<Rightarrow> bool completion \<times> 'w nav" where
  "insertBlock G s b destConnection =
     (case (case conn_type G destConnection of
              PREVIOUS_STATEMENT \<Rightarrow>
                moveAndConnect G s (block_nextConnection G (world s) b) (Some destConnection)
            | NEXT_STATEMENT \<Rightarrow>
                moveAndConnect G s (block_previousConnection G (world s) b) (Some destConnection)
            | INPUT_VALUE \<Rightarrow>
                moveAndConnect G s (block_outputConnection G (world s) b) (Some destConnection)
            | OUTPUT_VALUE \<Rightarrow>
                insertBlock_inputs G s (block_inputList G (world s) b) destConnection) of
        (TypeError, s1) \<Rightarrow> (TypeError, s1)
      | (Normal True, s1) \<Rightarrow> (Normal True, s1)
      | (Normal False, s1) \<Rightarrow>
          (Normal False, warn ''This block can not be inserted at the marked location.'' s1))"

subsection \<open>Modify\<close>

text \<open>The end of the workspace branch of \<open>modify\<close> (from \<open>block.isShadow()\<close> on), which
  its connection case and its block or stack case share.\<close>

definition modify_moveToWorkspace :: "'w graph_ops \<Rightarrow> 'w nav \<Rightarrow> block \<Rightarrow> coordinate \<Rightarrow> bool completion \<times> 'w nav" where
  "modify_moveToWorkspace G s b wsCoordinate =
     (if block_isShadow G (world s) b then
        (Normal False, warn ''Cannot move a shadow block to the workspace.'' s)
      else
        (let s1 = (if block_getParent G (world s) b \<noteq> None
                   then s\<lparr>world := block_unplug G b (world s)\<rparr> else s)
         in (Normal True, s1\<lparr>world := block_moveTo G b wsCoordinate (world s1)\<rparr>)))"

definition modify :: "'w graph_ops \<Rightarrow> 'w nav \<Rightarrow> bool completion \<times> 'w nav" where
  "modify G s =
     (case marker s of
        None \<Rightarrow> (Normal False, warn ''Cannot insert with no marked node.'' s)
      | Some markerNode \<Rightarrow>
     (case cursor s of
        None \<Rightarrow> (Normal False, warn ''Cannot insert with no cursor node.'' s)
      | Some cursorNode \<Rightarrow>
          (let markerType = getType markerNode; cursorType = getType cursorNode
           in if markerType = FIELD then
                (Normal False, warn ''Should not have been able to mark a field.'' s)
              else if markerType = BLOCK then
                (Normal False, warn ''Should not have been able to mark a block.'' s)
              else if markerType = STACK then
                (Normal False, warn ''Should not have been able to mark a stack.'' s)
              else if cursorType = FIELD then
                (Normal False, warn ''Cannot attach a field to anything else.'' s)
              else if cursorType = WORKSPACE then
                (Normal False, warn ''Cannot attach a workspace to anything else.'' s)
              else
                (case markerNode of
                   ConnectionNode mt markerLoc \<Rightarrow>
                     (case cursorNode of
                        ConnectionNode ct cursorLoc \<Rightarrow> connect G s (Some cursorLoc) (Some markerLoc)
                      | BlockNode b \<Rightarrow> insertBlock G s b markerLoc
                      | StackNode b \<Rightarrow> insertBlock G s b markerLoc
                      | _ \<Rightarrow> (Normal False, warn ''Unexpected state in Blockly.navigation.modify.'' s))
                 | WorkspaceNode ws wsCoordinate \<Rightarrow>
                     (case cursorNode of
                        ConnectionNode ct cursorLoc \<Rightarrow>
                          (if ct = INPUT \<or> ct = NEXT then
                             (Normal False,
                              warn ''Cannot move a next or input connection to the workspace.'' s)
                           else modify_moveToWorkspace G s (conn_getSourceBlock G cursorLoc) wsCoordinate)
                      | BlockNode b \<Rightarrow> modify_moveToWorkspace G s b wsCoordinate
                      | StackNode b \<Rightarrow> modify_moveToWorkspace G s b wsCoordinate
                      | _ \<Rightarrow> (Normal False, s))
                 | _ \<Rightarrow> (Normal False, warn ''Unexpected state in Blockly.navigation.modify.'' s)))))"

subsection \<open>Disconnecting\<close>

text \<open>\<open>curNode.isConnection()\<close> is called on the cursor's node without a test for
  \<open>null\<close>: a cursor with no node is the \<open>TypeError\<close> branch.\<close>

definition disconnectBlocks :: "'w graph_ops \<Rightarrow> 'w ui_ops \<Rightarrow> 'w nav \<Rightarrow> unit completion \<times> 'w nav" where
  "disconnectBlocks G U s =
     (case cursor s of
        None \<Rightarrow> (TypeError, s)
      | Some curNode \<Rightarrow>
          (case curNode of
             ConnectionNode t curConnection \<Rightarrow>
               (if \<not> isConnected G (world s) curConnection then
                  (Normal (), log ''Cannot disconnect unconnected connection'' s)
                else
                  (case conn_targetConnection G (world s) curConnection of
                     None \<Rightarrow> (TypeError, s)
                   | Some target \<Rightarrow>
                       (let superiorConnection =
                              (if conn_isSuperior G curConnection then curConnection else target);
                            inferiorConnection =
                              (if conn_isSuperior G curConnection then target else curConnection)
                        in if block_isShadow G (world s) (conn_getSourceBlock G inferiorConnection) then
                             (Normal (), log ''Cannot disconnect a shadow block'' s)
                           else
                             (let w1 = conn_disconnect G superiorConnection (world s);
                                  w2 = conn_bumpAwayFrom G inferiorConnection superiorConnection w1;
                                  rootBlock = block_getRootBlock G w2 (conn_getSourceBlock G superiorConnection);
                                  w3 = block_bringToFront G rootBlock w2
                              in (Normal (),
                                  cursor_setLocation (Some (createConnectionNode U w3 superiorConnection))
                                    (s\<lparr>world := w3\<rparr>))))))
           | _ \<Rightarrow>
               (Normal (),
                log ''Cannot disconnect blocks when the cursor is not on a connection'' s)))"


subsection \<open>Flyout and toolbox\<close>

text \<open>\<open>resetFlyout(true)\<close> calls \<open>hide()\<close> on \<open>getFlyout()\<close>, which the module itself
  tests for \<open>null\<close> elsewhere: no flyout is the \<open>TypeError\<close> branch. The cursor's
  workspace is the main workspace, the one \<open>Blockly.getMainWorkspace()\<close> answers.\<close>

definition resetFlyout :: "'w ui_ops \<Rightarrow> bool \<Rightarrow> 'w nav \<Rightarrow> unit completion \<times> 'w nav" where
  "resetFlyout U shouldHide s =
     (let s1 = cursor_hide (s\<lparr>flyoutBlock := None\<rparr>)
      in if shouldHide then
           (case ws_getFlyout U (world s1) of
              None \<Rightarrow> (TypeError, s1)
            | Some f \<Rightarrow> (Normal (), s1\<lparr>world := flyout_hide U f (world s1)\<rparr>))
         else (Normal (), s1))"

text \<open>\<open>focusToolbox\<close> reads \<open>toolbox.tree_\<close> of a toolbox that \<open>getToolbox()\<close> may have
  answered \<open>null\<close> for: no toolbox is the \<open>TypeError\<close> branch, taken after the marker has
  been set.\<close>

definition focusToolbox :: "'w ui_ops \<Rightarrow> 'w nav \<Rightarrow> unit completion \<times> 'w nav" where
  "focusToolbox U s =
     (case resetFlyout U False s of
        (TypeError, s0) \<Rightarrow> (TypeError, s0)
      | (Normal u, s0) \<Rightarrow>
          (let s1 = s0\<lparr>currentState := STATE_TOOLBOX\<rparr>;
               tb = ws_getToolbox U (world s1);
               s2 = (if marker s1 = None then markAtCursor s1 else s1)
           in case tb of
                None \<Rightarrow> (TypeError, s2)
              | Some t \<Rightarrow>
                  (let s3 = (if currentCategory s2 = None
                             then s2\<lparr>currentCategory := tree_firstChild U (world s2) t\<rparr> else s2)
                   in (Normal (),
                       s3\<lparr>world := tree_setSelectedItem U t (currentCategory s3) (world s3)\<rparr>))))"

definition nextCategory :: "'w ui_ops \<Rightarrow> 'w nav \<Rightarrow> 'w nav" where
  "nextCategory U s =
     (case currentCategory s of
        None \<Rightarrow> s
      | Some curCategory \<Rightarrow>
          (case cat_getNextShownNode U (world s) curCategory of
             Some nextNode \<Rightarrow>
               s\<lparr>world := cat_select U nextNode (world s), currentCategory := Some nextNode\<rparr>
           | None \<Rightarrow> s))"

definition previousCategory :: "'w ui_ops \<Rightarrow> 'w nav \<Rightarrow> 'w nav" where
  "previousCategory U s =
     (case currentCategory s of
        None \<Rightarrow> s
      | Some curCategory \<Rightarrow>
          (case cat_getPreviousShownNode U (world s) curCategory of
             Some previousNode \<Rightarrow>
               s\<lparr>world := cat_select U previousNode (world s), currentCategory := Some previousNode\<rparr>
           | None \<Rightarrow> s))"

definition focusFlyout :: "'w ui_ops \<Rightarrow> 'w nav \<Rightarrow> 'w nav" where
  "focusFlyout U s =
     (let s1 = s\<lparr>currentState := STATE_FLYOUT\<rparr>;
          fl = (case ws_getToolbox U (world s1) of
                  Some t \<Rightarrow> toolbox_flyout U (world s1) t
                | None \<Rightarrow> ws_getFlyout U (world s1));
          s2 = (if marker s1 = None then markAtCursor s1 else s1)
      in case fl of
           None \<Rightarrow> s2
         | Some f \<Rightarrow>
             (case flyout_getTopBlocks U (world s2) f of
                None \<Rightarrow> s2
              | Some topBlocks \<Rightarrow>
                  (case topBlocks of
                     [] \<Rightarrow> s2
                   | topBlock # rest \<Rightarrow>
                       cursor_setLocation (Some (BlockNode topBlock))
                         (s2\<lparr>flyoutBlock := Some topBlock\<rparr>))))"

definition inCategory :: "'w ui_ops \<Rightarrow> 'w nav \<Rightarrow> 'w nav" where
  "inCategory U s =
     (case currentCategory s of
        None \<Rightarrow> s
      | Some curCategory \<Rightarrow>
          (if cat_hasChildren U (world s) curCategory then
             (if \<not> cat_getExpanded U (world s) curCategory then
                s\<lparr>world := cat_setExpanded U curCategory True (world s)\<rparr>
              else
                s\<lparr>world := cat_select U (cat_getFirstChild U (world s) curCategory) (world s),
                  currentCategory :=
                    Some (cat_getFirstChild U
                      (cat_select U (cat_getFirstChild U (world s) curCategory) (world s)) curCategory)\<rparr>)
           else focusFlyout U s))"

definition outCategory :: "'w ui_ops \<Rightarrow> 'w nav \<Rightarrow> 'w nav" where
  "outCategory U s =
     (case currentCategory s of
        None \<Rightarrow> s
      | Some curCategory \<Rightarrow>
          (if cat_hasChildren U (world s) curCategory \<and> cat_getExpanded U (world s) curCategory
              \<and> cat_isUserCollapsible U (world s) curCategory then
             s\<lparr>world := cat_setExpanded U curCategory False (world s)\<rparr>
           else
             (case cat_getParent U (world s) curCategory of
                None \<Rightarrow> s
              | Some parent \<Rightarrow>
                  (if parent \<noteq> cat_getTree U (world s) curCategory then
                     s\<lparr>world := cat_select U parent (world s), currentCategory := Some parent\<rparr>
                   else s))))"

definition getFlyoutBlocks :: "'w ui_ops \<Rightarrow> 'w \<Rightarrow> block list" where
  "getFlyoutBlocks U w =
     (let fl = (case ws_getToolbox U w of
                  Some t \<Rightarrow> toolbox_flyout U w t
                | None \<Rightarrow> ws_getFlyout U w)
      in case fl of
           None \<Rightarrow> []
         | Some f \<Rightarrow> (case flyout_getTopBlocks U w f of None \<Rightarrow> [] | Some topBlocks \<Rightarrow> topBlocks))"

text \<open>\<open>Array.prototype.indexOf\<close>: the first index of the element, \<open>None\<close> for \<open>-1\<close>.\<close>

fun indexOf :: "'a list \<Rightarrow> 'a \<Rightarrow> nat option" where
  "indexOf [] x = None"
| "indexOf (y # ys) x = (if y = x then Some 0 else map_option Suc (indexOf ys x))"

text \<open>\<open>blocks[++curIdx]\<close> and \<open>blocks[--curIdx]\<close> are \<open>undefined\<close>, hence falsy, outside
  the array: the bounds are written out.\<close>

definition selectNextBlockInFlyout :: "'w ui_ops \<Rightarrow> 'w nav \<Rightarrow> 'w nav" where
  "selectNextBlockInFlyout U s =
     (case flyoutBlock s of
        None \<Rightarrow> s
      | Some curBlock \<Rightarrow>
          (let blocks = getFlyoutBlocks U (world s)
           in case indexOf blocks curBlock of
                None \<Rightarrow> s
              | Some curIdx \<Rightarrow>
                  (if curIdx + 1 < length blocks then
                     cursor_setLocation (Some (BlockNode (blocks ! (curIdx + 1))))
                       (s\<lparr>flyoutBlock := Some (blocks ! (curIdx + 1))\<rparr>)
                   else s)))"

definition selectPreviousBlockInFlyout :: "'w ui_ops \<Rightarrow> 'w nav \<Rightarrow> 'w nav" where
  "selectPreviousBlockInFlyout U s =
     (case flyoutBlock s of
        None \<Rightarrow> s
      | Some curBlock \<Rightarrow>
          (let blocks = getFlyoutBlocks U (world s)
           in case indexOf blocks curBlock of
                None \<Rightarrow> s
              | Some curIdx \<Rightarrow>
                  (if 0 < curIdx then
                     cursor_setLocation (Some (BlockNode (blocks ! (curIdx - 1))))
                       (s\<lparr>flyoutBlock := Some (blocks ! (curIdx - 1))\<rparr>)
                   else s)))"

subsection \<open>Workspace focus and insertion from the flyout\<close>

definition enableKeyboardAccessibility :: "'w nav \<Rightarrow> 'w nav" where
  "enableKeyboardAccessibility s = s\<lparr>keyboardAccessibilityMode := True\<rparr>"

definition focusWorkspace :: "'w graph_ops \<Rightarrow> 'w ui_ops \<Rightarrow> 'w nav \<Rightarrow> unit completion \<times> 'w nav" where
  "focusWorkspace G U s =
     (let reset = (ws_getToolbox U (world s) \<noteq> None)
      in case resetFlyout U reset s of
           (TypeError, s1) \<Rightarrow> (TypeError, s1)
         | (Normal u, s1) \<Rightarrow>
             (let s2 = enableKeyboardAccessibility (s1\<lparr>currentState := STATE_WS\<rparr>)
              in case selected U (world s2) of
                   Some b \<Rightarrow>
                     (let s3 = cursor_setLocation (Some (getTopNode G U (world s2) b)) s2
                      in (Normal (), s3\<lparr>world := block_unselect U b (world s3)\<rparr>))
                 | None \<Rightarrow>
                     (Normal (),
                      cursor_setLocation (Some (WorkspaceNode (cursorWorkspace s2) (100, 100))) s2)))"

definition insertFromFlyout :: "'w graph_ops \<Rightarrow> 'w ui_ops \<Rightarrow> 'w nav \<Rightarrow> unit completion \<times> 'w nav" where
  "insertFromFlyout G U s =
     (case (case ws_getFlyout U (world s) of
              None \<Rightarrow> None
            | Some f \<Rightarrow> (if flyout_isVisible U (world s) f then Some f else None)) of
        None \<Rightarrow>
          (Normal (),
           warn (''Trying to insert from the flyout when the flyout does not '' @
                 '' exist or is not visible'') s)
      | Some f \<Rightarrow>
          (let (newBlock, w1) = flyout_createBlock U f (flyoutBlock s) (world s);
               w2 = block_render U newBlock w1;
               w3 = block_setConnectionsHidden U newBlock False w2;
               s1 = cursor_setLocation (Some (BlockNode newBlock)) (s\<lparr>world := w3\<rparr>)
           in case modify G s1 of
                (TypeError, s2) \<Rightarrow> (TypeError, s2)
              | (Normal handled, s2) \<Rightarrow>
                  (let s3 = (if \<not> handled
                             then warn ''Something went wrong while inserting a block from the flyout.'' s2
                             else s2)
                   in case focusWorkspace G U s3 of
                        (TypeError, s4) \<Rightarrow> (TypeError, s4)
                      | (Normal u, s4) \<Rightarrow>
                          (Normal (),
                           removeMark
                             (cursor_setLocation (Some (getTopNode G U (world s4) newBlock)) s4)))))"

definition handleEnterForWS :: "'w ui_ops \<Rightarrow> 'w nav \<Rightarrow> unit completion \<times> 'w nav" where
  "handleEnterForWS U s =
     (case cursor s of
        None \<Rightarrow> (TypeError, s)
      | Some curNode \<Rightarrow>
          (case curNode of
             FieldNode location \<Rightarrow> (Normal (), s\<lparr>world := field_showEditor U location (world s)\<rparr>)
           | ConnectionNode t c \<Rightarrow> (Normal (), markAtCursor s)
           | WorkspaceNode ws xy \<Rightarrow> (Normal (), markAtCursor s)
           | BlockNode b \<Rightarrow> (Normal (), warn ''Cannot mark a block.'' s)
           | StackNode b \<Rightarrow> (Normal (), warn ''Cannot mark a stack.'' s)))"

subsection \<open>Action dispatch\<close>

text \<open>\<open>Blockly.navigation.actionNames\<close>.\<close>

definition actionNames_PREVIOUS :: string where "actionNames_PREVIOUS = ''previous''"
definition actionNames_NEXT :: string where "actionNames_NEXT = ''next''"
definition actionNames_IN :: string where "actionNames_IN = ''in''"
definition actionNames_OUT :: string where "actionNames_OUT = ''out''"
definition actionNames_INSERT :: string where "actionNames_INSERT = ''insert''"
definition actionNames_MARK :: string where "actionNames_MARK = ''mark''"
definition actionNames_DISCONNECT :: string where "actionNames_DISCONNECT = ''disconnect''"
definition actionNames_TOOLBOX :: string where "actionNames_TOOLBOX = ''toolbox''"
definition actionNames_EXIT :: string where "actionNames_EXIT = ''exit''"

text \<open>
  Modelled from the spec: \<open>Cursor.prev\<close>, \<open>next\<close>, \<open>in\<close> and \<open>out\<close> (cursor.js is
  missing). Each reads the current location and sets a new location, or leaves it
  unchanged if no valid move exists; no error is raised. The move itself is the external
  operation \<open>step\<close>, \<open>None\<close> when there is no move.
\<close>

definition cursor_move :: "('w \<Rightarrow> astnode option \<Rightarrow> astnode option) \<Rightarrow> 'w nav \<Rightarrow> 'w nav" where
  "cursor_move step s =
     (case step (world s) (cursor s) of
        None \<Rightarrow> s
      | Some newNode \<Rightarrow> cursor_setLocation (Some newNode) s)"

text \<open>The handlers take \<open>action.name\<close>. A call whose own result the handler discards
  still ends the handler when it throws.\<close>

definition handled :: "unit completion \<times> 'w nav \<Rightarrow> bool completion \<times> 'w nav" where
  "handled r = (case r of (TypeError, s1) \<Rightarrow> (TypeError, s1) | (Normal u, s1) \<Rightarrow> (Normal True, s1))"

definition workspaceOnAction :: "'w graph_ops \<Rightarrow> 'w ui_ops \<Rightarrow> 'w nav \<Rightarrow> string \<Rightarrow> bool completion \<times> 'w nav" where
  "workspaceOnAction G U s name =
     (if name = actionNames_PREVIOUS then (Normal True, cursor_move (cursor_prev U) s)
      else if name = actionNames_OUT then (Normal True, cursor_move (cursor_out U) s)
      else if name = actionNames_NEXT then (Normal True, cursor_move (cursor_next U) s)
      else if name = actionNames_IN then (Normal True, cursor_move (cursor_in U) s)
      else if name = actionNames_INSERT then
        (case modify G s of
           (TypeError, s1) \<Rightarrow> (TypeError, s1)
         | (Normal r, s1) \<Rightarrow> (Normal True, s1))
      else if name = actionNames_MARK then handled (handleEnterForWS U s)
      else if name = actionNames_DISCONNECT then handled (disconnectBlocks G U s)
      else if name = actionNames_TOOLBOX then
        (if ws_getToolbox U (world s) = None then (Normal True, focusFlyout U s)
         else handled (focusToolbox U s))
      else (Normal False, s))"

definition flyoutOnAction :: "'w graph_ops \<Rightarrow> 'w ui_ops \<Rightarrow> 'w nav \<Rightarrow> string \<Rightarrow> bool completion \<times> 'w nav" where
  "flyoutOnAction G U s name =
     (if name = actionNames_PREVIOUS then (Normal True, selectPreviousBlockInFlyout U s)
      else if name = actionNames_OUT then handled (focusToolbox U s)
      else if name = actionNames_NEXT then (Normal True, selectNextBlockInFlyout U s)
      else if name = actionNames_MARK then handled (insertFromFlyout G U s)
      else if name = actionNames_EXIT then handled (focusWorkspace G U s)
      else (Normal False, s))"

definition toolboxOnAction :: "'w graph_ops \<Rightarrow> 'w ui_ops \<Rightarrow> 'w nav \<Rightarrow> string \<Rightarrow> bool completion \<times> 'w nav" where
  "toolboxOnAction G U s name =
     (if name = actionNames_PREVIOUS then (Normal True, previousCategory U s)
      else if name = actionNames_OUT then (Normal True, outCategory U s)
      else if name = actionNames_NEXT then (Normal True, nextCategory U s)
      else if name = actionNames_IN then (Normal True, inCategory U s)
      else if name = actionNames_EXIT then handled (focusWorkspace G U s)
      else (Normal False, s))"

text \<open>The final \<open>return false\<close> of \<open>onBlocklyAction\<close> is for a state that is none of
  the three, which \<open>focus\<close> does not have.\<close>

definition onBlocklyAction :: "'w graph_ops \<Rightarrow> 'w ui_ops \<Rightarrow> 'w nav \<Rightarrow> string \<Rightarrow> bool completion \<times> 'w nav" where
  "onBlocklyAction G U s name =
     (case currentState s of
        STATE_WS \<Rightarrow> workspaceOnAction G U s name
      | STATE_FLYOUT \<Rightarrow> flyoutOnAction G U s name
      | STATE_TOOLBOX \<Rightarrow> toolboxOnAction G U s name)"


subsection \<open>The specification's words, for comparison with the code\<close>

text \<open>
  A connection's inferior counterpart is itself if inferior, else its block's
  previous-connection if present, else its output-connection, else none; its superior
  counterpart is itself if superior, else its current target if joined.
\<close>

definition inferior_counterpart :: "'w graph_ops \<Rightarrow> 'w \<Rightarrow> connection \<Rightarrow> connection option" where
  "inferior_counterpart G w c =
     (if conn_isSuperior G c then
        (case block_previousConnection G w (conn_getSourceBlock G c) of
           Some p \<Rightarrow> Some p
         | None \<Rightarrow> block_outputConnection G w (conn_getSourceBlock G c))
      else Some c)"

definition superior_counterpart :: "'w graph_ops \<Rightarrow> 'w \<Rightarrow> connection \<Rightarrow> connection option" where
  "superior_counterpart G w c =
     (if conn_isSuperior G c then Some c else conn_targetConnection G w c)"

text \<open>A pair (moving side, destination side) exists when both of its connections do.\<close>

definition pair_of :: "connection option \<Rightarrow> connection option \<Rightarrow> (connection \<times> connection) list" where
  "pair_of a b = (case a of None \<Rightarrow> [] | Some x \<Rightarrow> (case b of None \<Rightarrow> [] | Some y \<Rightarrow> [(x, y)]))"

text \<open>The pairs \<open>connect\<close> is to try, in order: (moving-inferior, dest-superior),
  (moving-superior, dest-inferior), (moving, dest).\<close>

definition candidate_pairs :: "'w graph_ops \<Rightarrow> 'w \<Rightarrow> connection \<Rightarrow> connection \<Rightarrow> (connection \<times> connection) list" where
  "candidate_pairs G w m d =
     pair_of (inferior_counterpart G w m) (superior_counterpart G w d)
     @ pair_of (superior_counterpart G w m) (inferior_counterpart G w d)
     @ [(m, d)]"

text \<open>A pair (moving side, destination side) passes the graph's compatibility check.\<close>

definition compatible :: "'w graph_ops \<Rightarrow> 'w \<Rightarrow> connection \<times> connection \<Rightarrow> bool" where
  "compatible G w p = (conn_canConnectWithReason G w (snd p) (fst p) = CAN_CONNECT)"

text \<open>The connections of a list of inputs, in order: an input without a connection
  has none to give.\<close>

fun connections_of :: "connection option list \<Rightarrow> connection list" where
  "connections_of [] = []"
| "connections_of (None # rest) = connections_of rest"
| "connections_of (Some c # rest) = c # connections_of rest"

text \<open>What the block offers to a destination connection, by the destination's role; for
  an output destination, its input-role connections in declaration order.\<close>

definition offered :: "'w graph_ops \<Rightarrow> 'w \<Rightarrow> block \<Rightarrow> connection \<Rightarrow> connection list" where
  "offered G w b d =
     (case conn_type G d of
        PREVIOUS_STATEMENT \<Rightarrow> (case block_nextConnection G w b of None \<Rightarrow> [] | Some c \<Rightarrow> [c])
      | NEXT_STATEMENT \<Rightarrow> (case block_previousConnection G w b of None \<Rightarrow> [] | Some c \<Rightarrow> [c])
      | INPUT_VALUE \<Rightarrow> (case block_outputConnection G w b of None \<Rightarrow> [] | Some c \<Rightarrow> [c])
      | OUTPUT_VALUE \<Rightarrow>
          filter (\<lambda>c. conn_type G c = INPUT_VALUE) (connections_of (block_inputList G w b)))"

text \<open>The inputs that the loop of \<open>insertBlock\<close> can reach: those before the first
  input that has no connection.\<close>

fun inputs_before_null :: "connection option list \<Rightarrow> connection list" where
  "inputs_before_null [] = []"
| "inputs_before_null (None # rest) = []"
| "inputs_before_null (Some c # rest) = c # inputs_before_null rest"

text \<open>The block that the workspace branch of \<open>modify\<close> moves: the cursor's own
  block, or its connection's source block.\<close>

definition moved_block :: "'w graph_ops \<Rightarrow> astnode \<Rightarrow> block option" where
  "moved_block G C =
     (case C of
        ConnectionNode t c \<Rightarrow> Some (conn_getSourceBlock G c)
      | BlockNode b \<Rightarrow> Some b
      | StackNode b \<Rightarrow> Some b
      | _ \<Rightarrow> None)"

text \<open>The live join at a location: for a connection that is currently joined, the pair
  (superior, inferior) of the connection and its target; otherwise none.\<close>

definition live_join :: "'w graph_ops \<Rightarrow> 'w \<Rightarrow> astnode \<Rightarrow> (connection \<times> connection) option" where
  "live_join G w n =
     (case n of
        ConnectionNode t c \<Rightarrow>
          (case conn_targetConnection G w c of
             None \<Rightarrow> None
           | Some target \<Rightarrow> Some (if conn_isSuperior G c then (c, target) else (target, c)))
      | _ \<Rightarrow> None)"

text \<open>The flyout exists and is visible.\<close>

definition flyoutShown :: "'w ui_ops \<Rightarrow> 'w \<Rightarrow> bool" where
  "flyoutShown U w = (case ws_getFlyout U w of None \<Rightarrow> False | Some f \<Rightarrow> flyout_isVisible U w f)"

subsection \<open>The blocks as a forest, and what the graph's primitives are relied on for\<close>

text \<open>
  The parent relation of a world: the pairs (child, parent) that \<open>getParent()\<close> answers.
  A graph contains a cycle when this relation does.
\<close>

definition parent_rel :: "'w graph_ops \<Rightarrow> 'w \<Rightarrow> (block \<times> block) set" where
  "parent_rel G w = {(c, p). block_getParent G w c = Some p}"

text \<open>No block is its own ancestor.\<close>

definition cycle_free :: "'w graph_ops \<Rightarrow> 'w \<Rightarrow> bool" where
  "cycle_free G w = acyclic (parent_rel G w)"

text \<open>Two blocks have a common ancestor (a block counts among its own ancestors).\<close>

definition same_tree :: "'w graph_ops \<Rightarrow> 'w \<Rightarrow> block \<Rightarrow> block \<Rightarrow> bool" where
  "same_tree G w x y = (\<exists>r. (x, r) \<in> (parent_rel G w)\<^sup>* \<and> (y, r) \<in> (parent_rel G w)\<^sup>*)"

text \<open>
  In a world, the answers of \<open>getRootBlock()\<close> and \<open>getDescendants()\<close> fit the parent
  relation: the root of a block is an ancestor of it that has no parent, and the
  descendants of a block are the blocks it is an ancestor of, itself included.
\<close>

definition coherent :: "'w graph_ops \<Rightarrow> 'w \<Rightarrow> bool" where
  "coherent G w =
     ((\<forall>x. (x, block_getRootBlock G w x) \<in> (parent_rel G w)\<^sup>*
           \<and> block_getParent G w (block_getRootBlock G w x) = None)
      \<and> (\<forall>m d. (d \<in> set (block_getDescendants G w m)) = ((d, m) \<in> (parent_rel G w)\<^sup>*)))"

text \<open>
  What \<open>connect\<close> relies on, of primitives whose code is in connection.js and block.js:
  \<^item> the compatibility check passes only for connections of two different blocks, one
    superior and one inferior;
  \<^item> disconnecting the inferior connection that \<open>getInferiorConnection_\<close> answers for a
    connection leaves the block of that connection without a parent, makes no cycle and
    gives that block no new descendant;
  \<^item> \<open>positionNearConnection\<close> changes no parent;
  \<^item> joining a superior and an inferior connection of two blocks that have no common
    ancestor, in a graph without a cycle, makes no cycle.
\<close>

definition graph_contract :: "'w graph_ops \<Rightarrow> bool" where
  "graph_contract G =
     ((\<forall>w a b. conn_canConnectWithReason G w b a = CAN_CONNECT \<longrightarrow>
          conn_getSourceBlock G a \<noteq> conn_getSourceBlock G b
          \<and> conn_isSuperior G a \<noteq> conn_isSuperior G b)
      \<and> (\<forall>w x c. getInferiorConnection G w x = Some c \<longrightarrow>
            (cycle_free G w \<longrightarrow> cycle_free G (conn_disconnect G c w))
            \<and> block_getParent G (conn_disconnect G c w) (conn_getSourceBlock G x) = None
            \<and> (\<forall>y. (y, conn_getSourceBlock G x) \<in> (parent_rel G (conn_disconnect G c w))\<^sup>* \<longrightarrow>
                     (y, conn_getSourceBlock G x) \<in> (parent_rel G w)\<^sup>*))
      \<and> (\<forall>w r a b. block_getParent G (block_positionNearConnection G r a b w) = block_getParent G w)
      \<and> (\<forall>w a b. cycle_free G w \<and> \<not> same_tree G w (conn_getSourceBlock G a) (conn_getSourceBlock G b)
            \<and> conn_isSuperior G a \<noteq> conn_isSuperior G b \<longrightarrow>
            cycle_free G (conn_connect G b a w)))"

subsection \<open>A small editor, to run the functions on\<close>

text \<open>
  Blocks are numbered; the even ones are statement blocks, the odd ones value blocks.
  Connection \<open>4 * b + k\<close> belongs to block \<open>b\<close>. Of a statement block, connection 0 is
  the previous connection, 1 the next connection, 2 and 3 are value inputs, which come
  after a first input that holds a label and has no connection; of a value
  block, connection 0 is the output and 1, 2, 3 are value inputs. Next and input
  connections are the superior ones. Two connections are compatible when they are on
  different blocks and of opposite types. The parent of a block is the block of the
  target of its previous or output connection. The world is the targets of the
  connections and the positions of the blocks; root and descendants are computed for
  stacks of up to four blocks among the blocks 0 to 3. The editor has a flyout, showing
  the blocks 2 and 1, and no toolbox.
\<close>

record toy_world =
  targets :: "connection \<Rightarrow> connection option"
  positions :: "block \<Rightarrow> coordinate"

definition toy_type :: "connection \<Rightarrow> connection_type" where
  "toy_type c =
     (if c mod 4 = 0 then (if even (c div 4) then PREVIOUS_STATEMENT else OUTPUT_VALUE)
      else if c mod 4 = 1 \<and> even (c div 4) then NEXT_STATEMENT
      else INPUT_VALUE)"

definition toy_previous :: "block \<Rightarrow> connection option" where
  "toy_previous b = (if even b then Some (4 * b) else None)"

definition toy_next :: "block \<Rightarrow> connection option" where
  "toy_next b = (if even b then Some (4 * b + 1) else None)"

definition toy_output :: "block \<Rightarrow> connection option" where
  "toy_output b = (if even b then None else Some (4 * b))"

definition toy_inputs :: "block \<Rightarrow> connection option list" where
  "toy_inputs b =
     (if even b then [None, Some (4 * b + 2), Some (4 * b + 3)]
      else [Some (4 * b + 1), Some (4 * b + 2), Some (4 * b + 3)])"

definition toy_reason :: "connection \<Rightarrow> connection \<Rightarrow> nat" where
  "toy_reason d m =
     (if d div 4 = m div 4 then 1
      else if (toy_type d = INPUT_VALUE \<and> toy_type m = OUTPUT_VALUE)
           \<or> (toy_type d = OUTPUT_VALUE \<and> toy_type m = INPUT_VALUE)
           \<or> (toy_type d = NEXT_STATEMENT \<and> toy_type m = PREVIOUS_STATEMENT)
           \<or> (toy_type d = PREVIOUS_STATEMENT \<and> toy_type m = NEXT_STATEMENT) then 0
      else 2)"

definition toy_disconnect :: "connection \<Rightarrow> toy_world \<Rightarrow> toy_world" where
  "toy_disconnect c w =
     (case targets w c of
        None \<Rightarrow> w
      | Some t \<Rightarrow> w\<lparr>targets := (targets w)(c := None, t := None)\<rparr>)"

definition toy_connect :: "connection \<Rightarrow> connection \<Rightarrow> toy_world \<Rightarrow> toy_world" where
  "toy_connect d m w =
     (let w1 = toy_disconnect m (toy_disconnect d w)
      in w1\<lparr>targets := (targets w1)(d := Some m, m := Some d)\<rparr>)"

definition toy_parent :: "toy_world \<Rightarrow> block \<Rightarrow> block option" where
  "toy_parent w b =
     (case (case toy_previous b of Some p \<Rightarrow> Some p | None \<Rightarrow> toy_output b) of
        None \<Rightarrow> None
      | Some c \<Rightarrow> (case targets w c of None \<Rightarrow> None | Some t \<Rightarrow> Some (t div 4)))"

fun toy_chain :: "nat \<Rightarrow> toy_world \<Rightarrow> block \<Rightarrow> block list" where
  "toy_chain 0 w b = [b]"
| "toy_chain (Suc n) w b = b # (case toy_parent w b of None \<Rightarrow> [] | Some p \<Rightarrow> toy_chain n w p)"

definition toy_graph :: "toy_world graph_ops" where
  "toy_graph =
     \<lparr> conn_getSourceBlock = (\<lambda>c. c div 4),
       conn_isSuperior = (\<lambda>c. toy_type c = INPUT_VALUE \<or> toy_type c = NEXT_STATEMENT),
       conn_type = toy_type,
       conn_targetConnection = targets,
       conn_canConnectWithReason = (\<lambda>w. toy_reason),
       conn_reasonText = (\<lambda>r. if r = 1 then ''self'' else ''types''),
       conn_disconnect = toy_disconnect,
       conn_connect = toy_connect,
       conn_bumpAwayFrom = (\<lambda>i sup w. w),
       block_previousConnection = (\<lambda>w. toy_previous),
       block_nextConnection = (\<lambda>w. toy_next),
       block_outputConnection = (\<lambda>w. toy_output),
       block_inputList = (\<lambda>w. toy_inputs),
       block_isShadow = (\<lambda>w b. False),
       block_getParent = toy_parent,
       block_getRootBlock = (\<lambda>w b. last (toy_chain (Suc (Suc (Suc 0))) w b)),
       block_getDescendants =
         (\<lambda>w b. b # filter (\<lambda>x. x \<noteq> b \<and> b \<in> set (toy_chain (Suc (Suc (Suc 0))) w x)) [0, 1, 2, 3]),
       block_unplug = (\<lambda>b w. case (case toy_previous b of Some p \<Rightarrow> Some p | None \<Rightarrow> toy_output b) of
                                 None \<Rightarrow> w | Some c \<Rightarrow> toy_disconnect c w),
       block_moveTo = (\<lambda>b xy w. w\<lparr>positions := (positions w)(b := xy)\<rparr>),
       block_positionNearConnection = (\<lambda>r m d w. w),
       block_bringToFront = (\<lambda>b w. w) \<rparr>"

definition toy_ui :: "toy_world ui_ops" where
  "toy_ui =
     \<lparr> ws_getToolbox = (\<lambda>w. None),
       ws_getFlyout = (\<lambda>w. Some 0),
       toolbox_flyout = (\<lambda>w t. Some 0),
       tree_firstChild = (\<lambda>w t. Some 0),
       tree_setSelectedItem = (\<lambda>t c w. w),
       flyout_getTopBlocks = (\<lambda>w f. Some [2, 1]),
       flyout_isVisible = (\<lambda>w f. True),
       flyout_createBlock = (\<lambda>f b w. (case b of None \<Rightarrow> 3 | Some x \<Rightarrow> x, w)),
       flyout_hide = (\<lambda>f w. w),
       block_render = (\<lambda>b w. w),
       block_setConnectionsHidden = (\<lambda>b h w. w),
       block_unselect = (\<lambda>b w. w),
       selected = (\<lambda>w. None),
       cat_getNextShownNode = (\<lambda>w c. None),
       cat_getPreviousShownNode = (\<lambda>w c. None),
       cat_select = (\<lambda>c w. w),
       cat_hasChildren = (\<lambda>w c. False),
       cat_getExpanded = (\<lambda>w c. False),
       cat_setExpanded = (\<lambda>c e w. w),
       cat_isUserCollapsible = (\<lambda>w c. False),
       cat_getFirstChild = (\<lambda>w c. c),
       cat_getParent = (\<lambda>w c. None),
       cat_getTree = (\<lambda>w c. c),
       cursor_prev = (\<lambda>w n. None),
       cursor_next = (\<lambda>w n. None),
       cursor_in = (\<lambda>w n. None),
       cursor_out = (\<lambda>w n. None),
       field_showEditor = (\<lambda>f w. w),
       connection_tag_of = (\<lambda>w c. case toy_type c of
                              INPUT_VALUE \<Rightarrow> INPUT | OUTPUT_VALUE \<Rightarrow> OUTPUT
                            | NEXT_STATEMENT \<Rightarrow> NEXT | PREVIOUS_STATEMENT \<Rightarrow> PREVIOUS) \<rparr>"

text \<open>The same editor with a toolbox.\<close>

definition toy_ui_toolbox :: "toy_world ui_ops" where
  "toy_ui_toolbox = toy_ui\<lparr>ws_getToolbox := (\<lambda>w. Some 0)\<rparr>"

text \<open>No connection joined, every block at the origin; cursor and marker hold no
  location; focus on the workspace.\<close>

definition toy_start :: "toy_world nav" where
  "toy_start =
     \<lparr> world = \<lparr> targets = (\<lambda>c. None), positions = (\<lambda>b. (0, 0)) \<rparr>,
       cursor = None, cursorShown = False, marker = None, markerShown = False,
       currentCategory = None, flyoutBlock = None, currentState = STATE_WS,
       keyboardAccessibilityMode = True, cursorWorkspace = 0, logged = [] \<rparr>"

text \<open>Block 2 is a stack on its own under the cursor; the marker is on the workspace at
  (50, 50).\<close>

definition toy_stack_to_workspace :: "toy_world nav" where
  "toy_stack_to_workspace =
     toy_start\<lparr>cursor := Some (StackNode 2), marker := Some (WorkspaceNode 0 (50, 50))\<rparr>"

text \<open>Block 2 hangs below block 0 (connection 1, the next connection of block 0, is
  joined to connection 8, the previous connection of block 2); the cursor is on
  connection 8.\<close>

definition toy_joined :: "toy_world nav" where
  "toy_joined =
     toy_start\<lparr>world := \<lparr> targets = (\<lambda>c. if c = 1 then Some 8 else if c = 8 then Some 1 else None),
                          positions = (\<lambda>b. (0, 0)) \<rparr>,
               cursor := Some (ConnectionNode PREVIOUS 8)\<rparr>"

text \<open>Focus on the flyout with block 2, a statement block, which has no output
  connection, selected; the marker is on connection 2, a value input of block 0.\<close>

definition toy_in_flyout :: "toy_world nav" where
  "toy_in_flyout =
     toy_start\<lparr>currentState := STATE_FLYOUT, flyoutBlock := Some 2,
               marker := Some (ConnectionNode INPUT 2)\<rparr>"

text \<open>The cursor on the workspace at (100, 100), no marker.\<close>

definition toy_on_workspace :: "toy_world nav" where
  "toy_on_workspace = toy_start\<lparr>cursor := Some (WorkspaceNode 0 (100, 100))\<rparr>"

section \<open>Properties\<close>

subsection \<open>The counterparts and one attempt\<close>

lemma getInferiorConnection_counterpart:
  "getInferiorConnection G w c = inferior_counterpart G w c"
  by (auto simp: getInferiorConnection_def inferior_counterpart_def Let_def split: option.splits)

lemma getSuperiorConnection_counterpart:
  "getSuperiorConnection G w c = superior_counterpart G w c"
  by (auto simp: getSuperiorConnection_def superior_counterpart_def split: option.splits)

lemma moveAndConnect_None: "moveAndConnect G s None b = (Normal False, s)"
  by (simp add: moveAndConnect_def)

lemma moveAndConnect_incompatible:
  "\<not> compatible G (world s) (a, b) \<Longrightarrow> moveAndConnect G s (Some a) (Some b) = (Normal False, s)"
  by (simp add: moveAndConnect_def compatible_def)

text \<open>On a compatible pair \<open>moveAndConnect\<close> severs first (\<open>disconnectChild\<close>), then
  repositions if the destination is inferior, then joins, and answers true; or it ends
  in the \<open>TypeError\<close> of \<open>disconnectChild\<close>.\<close>

lemma moveAndConnect_compatible:
  "compatible G (world s) (a, b) \<Longrightarrow>
   moveAndConnect G s (Some a) (Some b) =
     (case disconnectChild G s a b of
        (TypeError, s1) \<Rightarrow> (TypeError, s1)
      | (Normal u, s1) \<Rightarrow>
          (Normal True,
           s1\<lparr>world := conn_connect G b a
                 (if conn_isSuperior G b then world s1
                  else block_positionNearConnection G
                         (block_getRootBlock G (world s1) (conn_getSourceBlock G a)) a b (world s1))\<rparr>))"
  by (auto simp: moveAndConnect_def compatible_def Let_def split: prod.splits completion.splits)

lemma moveAndConnect_compatible_result:
  "compatible G (world s) (a, b) \<Longrightarrow> fst (moveAndConnect G s (Some a) (Some b)) \<noteq> Normal False"
  by (auto simp: moveAndConnect_compatible split: prod.splits completion.splits)

lemma first_success:
  "fst r \<noteq> Normal False \<Longrightarrow>
   (case r of (TypeError, s1) \<Rightarrow> (TypeError, s1)
            | (Normal True, s1) \<Rightarrow> (Normal True, s1)
            | (Normal False, s1) \<Rightarrow> k s1) = r"
  by (cases r) (auto split: completion.splits bool.splits)

lemma attempt_compatible:
  "compatible G (world s) (a, b) \<Longrightarrow>
   (case moveAndConnect G s (Some a) (Some b) of
      (TypeError, s1) \<Rightarrow> (TypeError, s1)
    | (Normal True, s1) \<Rightarrow> (Normal True, s1)
    | (Normal False, s1) \<Rightarrow> k s1) = moveAndConnect G s (Some a) (Some b)"
  by (rule first_success) (rule moveAndConnect_compatible_result)

lemma attempt_incompatible:
  "\<not> compatible G (world s) (a, b) \<Longrightarrow>
   (case moveAndConnect G s (Some a) (Some b) of
      (TypeError, s1) \<Rightarrow> (TypeError, s1)
    | (Normal True, s1) \<Rightarrow> (Normal True, s1)
    | (Normal False, s1) \<Rightarrow> k s1) = k s"
  by (simp add: moveAndConnect_incompatible)

lemma checkConnection_incompatible:
  "\<not> compatible G w (m, d) \<Longrightarrow>
   checkConnection G w d m = Some (conn_reasonText G (conn_canConnectWithReason G w d m))"
  by (simp add: checkConnection_def compatible_def)

lemma find_compatible:
  "find (\<lambda>c. compatible G w (c, d)) cs = Some c \<Longrightarrow> compatible G w (c, d)"
  by (induction cs) (auto split: if_splits)

lemma find_None_last:
  "find P (xs @ [x]) = None \<Longrightarrow> \<not> P x"
  by (induction xs) (auto split: if_splits)

subsection \<open>What an attempt leaves alone\<close>

lemma disconnectChild_frame:
  "snd (disconnectChild G s a b) = s\<lparr>world := world (snd (disconnectChild G s a b))\<rparr>"
  by (simp add: disconnectChild_def Let_def split: option.splits)

lemma disconnectChild_TypeError:
  "fst (disconnectChild G s a b) = TypeError \<Longrightarrow> snd (disconnectChild G s a b) = s"
  by (simp add: disconnectChild_def Let_def split: option.splits if_splits)

lemma moveAndConnect_frame:
  "snd (moveAndConnect G s a b) = s\<lparr>world := world (snd (moveAndConnect G s a b))\<rparr>"
proof (cases a; cases b)
  fix x y assume ab: "a = Some x" "b = Some y"
  obtain r s1 where d: "disconnectChild G s x y = (r, s1)" by (cases "disconnectChild G s x y")
  have "s1 = s\<lparr>world := world s1\<rparr>" using disconnectChild_frame[of G s x y] d by simp
  then obtain w1 where "s1 = s\<lparr>world := w1\<rparr>" ..
  then show ?thesis using ab d
    by (cases r) (simp_all add: moveAndConnect_def Let_def)
qed (simp_all add: moveAndConnect_def)

lemma moveAndConnect_not_True:
  "fst (moveAndConnect G s a b) \<noteq> Normal True \<Longrightarrow> snd (moveAndConnect G s a b) = s"
proof (cases a; cases b)
  fix x y assume ab: "a = Some x" "b = Some y" and nt: "fst (moveAndConnect G s a b) \<noteq> Normal True"
  obtain r s1 where d: "disconnectChild G s x y = (r, s1)" by (cases "disconnectChild G s x y")
  show ?thesis
  proof (cases r)
    case TypeError
    then have "s1 = s" using disconnectChild_TypeError[of G s x y] d by simp
    then show ?thesis using ab d TypeError by (simp add: moveAndConnect_def Let_def)
  next
    case (Normal u)
    then show ?thesis using ab d nt by (simp add: moveAndConnect_def Let_def split: if_splits)
  qed
qed (simp_all add: moveAndConnect_def)

subsection \<open>connect, pair by pair\<close>

lemma connect_order:
  "connect G s (Some m) (Some d) =
     (case find (compatible G (world s)) (candidate_pairs G (world s) m d) of
        Some (a, b) \<Rightarrow> moveAndConnect G s (Some a) (Some b)
      | None \<Rightarrow>
          (Normal False,
           warn (''Connection failed with error: '' @
                 conn_reasonText G (conn_canConnectWithReason G (world s) d m)) s))"
proof -
  let ?w = "world s"
  let ?fail = "(Normal False,
           warn (''Connection failed with error: '' @
                 conn_reasonText G (conn_canConnectWithReason G ?w d m)) s)"
  have third: "(case moveAndConnect G s (Some m) (Some d) of
                  (TypeError, s3) \<Rightarrow> (TypeError, s3)
                | (Normal True, s3) \<Rightarrow> (Normal True, s3)
                | (Normal False, s3) \<Rightarrow>
                    (case checkConnection G (world s3) d m of
                       Some e \<Rightarrow> (Normal False, warn (''Connection failed with error: '' @ e) s3)
                     | None \<Rightarrow> (Normal False, s3)))
               = (if compatible G ?w (m, d) then moveAndConnect G s (Some m) (Some d) else ?fail)"
    by (simp add: attempt_compatible attempt_incompatible checkConnection_incompatible)
  show ?thesis
    unfolding connect_def getInferiorConnection_counterpart getSuperiorConnection_counterpart
      candidate_pairs_def pair_of_def Let_def
    by (cases "inferior_counterpart G ?w m"; cases "superior_counterpart G ?w d";
        cases "superior_counterpart G ?w m"; cases "inferior_counterpart G ?w d")
       (simp_all add: third attempt_compatible attempt_incompatible)
qed

lemma connect_not_True_world:
  "fst (connect G s a b) \<noteq> Normal True \<Longrightarrow> world (snd (connect G s a b)) = world s"
proof (cases a; cases b)
  fix m d assume ab: "a = Some m" "b = Some d" and nt: "fst (connect G s a b) \<noteq> Normal True"
  let ?f = "find (compatible G (world s)) (candidate_pairs G (world s) m d)"
  show ?thesis
  proof (cases ?f)
    case None
    then show ?thesis using ab by (simp add: connect_order warn_def)
  next
    case (Some p)
    obtain x y where p: "p = (x, y)" by (cases p)
    have eq: "connect G s a b = moveAndConnect G s (Some x) (Some y)"
      using ab Some p by (simp add: connect_order)
    then have "snd (moveAndConnect G s (Some x) (Some y)) = s"
      using nt by (simp add: moveAndConnect_not_True)
    then show ?thesis using eq by simp
  qed
qed (simp_all add: connect_def)

lemma connect_frame:
  "snd (connect G s a b) =
     s\<lparr>world := world (snd (connect G s a b)), logged := logged (snd (connect G s a b))\<rparr>"
proof (cases a; cases b)
  fix m d assume ab: "a = Some m" "b = Some d"
  let ?f = "find (compatible G (world s)) (candidate_pairs G (world s) m d)"
  show ?thesis
  proof (cases ?f)
    case None
    then show ?thesis using ab by (simp add: connect_order warn_def)
  next
    case (Some p)
    obtain x y where p: "p = (x, y)" by (cases p)
    have eq: "connect G s a b = moveAndConnect G s (Some x) (Some y)"
      using ab Some p by (simp add: connect_order)
    obtain w1 where "snd (moveAndConnect G s (Some x) (Some y)) = s\<lparr>world := w1\<rparr>"
      using moveAndConnect_frame[of G s "Some x" "Some y"] by metis
    then show ?thesis using eq by simp
  qed
qed (simp_all add: connect_def)

subsection \<open>insertBlock, offer by offer\<close>

lemma insertBlock_inputs_find:
  "insertBlock_inputs G s cs d =
     (case find (\<lambda>c. compatible G (world s) (c, d))
             (filter (\<lambda>c. conn_type G c = INPUT_VALUE) (inputs_before_null cs)) of
        Some c \<Rightarrow> moveAndConnect G s (Some c) (Some d)
      | None \<Rightarrow> (if None \<in> set cs then (TypeError, s) else (Normal False, s)))"
proof (induction cs)
  case Nil
  show ?case by simp
next
  case (Cons i cs)
  show ?case
  proof (cases i)
    case None
    then show ?thesis by simp
  next
    case (Some c)
    show ?thesis
    proof (cases "conn_type G c = INPUT_VALUE")
      case False
      then show ?thesis using Cons Some by simp
    next
      case True
      show ?thesis
      proof (cases "compatible G (world s) (c, d)")
        case True
        then show ?thesis using \<open>conn_type G c = INPUT_VALUE\<close> Some
          by (simp add: attempt_compatible)
      next
        case False
        then show ?thesis using \<open>conn_type G c = INPUT_VALUE\<close> Cons Some
          by (simp add: attempt_incompatible)
      qed
    qed
  qed
qed

lemma inputs_before_null_all:
  "None \<notin> set cs \<Longrightarrow> inputs_before_null cs = connections_of cs"
proof (induction cs)
  case Nil
  show ?case by simp
next
  case (Cons i cs)
  then show ?case by (cases i) simp_all
qed

lemma insertBlock_inputs_frame:
  "snd (insertBlock_inputs G s cs d) = s\<lparr>world := world (snd (insertBlock_inputs G s cs d))\<rparr>"
proof (cases "find (\<lambda>c. compatible G (world s) (c, d))
                (filter (\<lambda>c. conn_type G c = INPUT_VALUE) (inputs_before_null cs))")
  case None
  then show ?thesis by (simp add: insertBlock_inputs_find)
next
  case (Some c)
  obtain w1 where "snd (moveAndConnect G s (Some c) (Some d)) = s\<lparr>world := w1\<rparr>"
    using moveAndConnect_frame[of G s "Some c" "Some d"] by metis
  then show ?thesis using Some by (simp add: insertBlock_inputs_find)
qed

lemma insertBlock_inputs_not_True:
  "fst (insertBlock_inputs G s cs d) \<noteq> Normal True \<Longrightarrow> snd (insertBlock_inputs G s cs d) = s"
proof (cases "find (\<lambda>c. compatible G (world s) (c, d))
                (filter (\<lambda>c. conn_type G c = INPUT_VALUE) (inputs_before_null cs))")
  case None
  then show ?thesis by (simp add: insertBlock_inputs_find)
next
  case (Some c)
  assume "fst (insertBlock_inputs G s cs d) \<noteq> Normal True"
  then show ?thesis using Some by (simp add: insertBlock_inputs_find moveAndConnect_not_True)
qed

lemma moveAndConnect_offer:
  "moveAndConnect G s c (Some d) =
     (case find (\<lambda>c. compatible G (world s) (c, d)) (case c of None \<Rightarrow> [] | Some x \<Rightarrow> [x]) of
        Some c \<Rightarrow> moveAndConnect G s (Some c) (Some d)
      | None \<Rightarrow> (Normal False, s))"
  by (cases c) (simp_all add: moveAndConnect_None moveAndConnect_incompatible)

lemma insertBlock_attempts:
  "conn_type G d \<noteq> OUTPUT_VALUE \<or> None \<notin> set (block_inputList G (world s) b) \<Longrightarrow>
   (case conn_type G d of
      PREVIOUS_STATEMENT \<Rightarrow> moveAndConnect G s (block_nextConnection G (world s) b) (Some d)
    | NEXT_STATEMENT \<Rightarrow> moveAndConnect G s (block_previousConnection G (world s) b) (Some d)
    | INPUT_VALUE \<Rightarrow> moveAndConnect G s (block_outputConnection G (world s) b) (Some d)
    | OUTPUT_VALUE \<Rightarrow> insertBlock_inputs G s (block_inputList G (world s) b) d) =
   (case find (\<lambda>c. compatible G (world s) (c, d)) (offered G (world s) b d) of
      Some c \<Rightarrow> moveAndConnect G s (Some c) (Some d)
    | None \<Rightarrow> (Normal False, s))"
  by (cases "conn_type G d")
     (simp_all add: offered_def insertBlock_inputs_find inputs_before_null_all
        moveAndConnect_offer[symmetric])

lemma insertBlock_offers:
  assumes "conn_type G d \<noteq> OUTPUT_VALUE \<or> None \<notin> set (block_inputList G (world s) b)"
  shows "insertBlock G s b d =
     (case find (\<lambda>c. compatible G (world s) (c, d)) (offered G (world s) b d) of
        Some c \<Rightarrow> moveAndConnect G s (Some c) (Some d)
      | None \<Rightarrow>
          (Normal False, warn ''This block can not be inserted at the marked location.'' s))"
proof (cases "find (\<lambda>c. compatible G (world s) (c, d)) (offered G (world s) b d)")
  case None
  then show ?thesis unfolding insertBlock_def insertBlock_attempts[OF assms] by simp
next
  case (Some c)
  then have "compatible G (world s) (c, d)" by (rule find_compatible)
  then show ?thesis unfolding insertBlock_def insertBlock_attempts[OF assms] using Some
    by (simp add: attempt_compatible)
qed

lemma insertBlock_null_input:
  assumes "conn_type G d = OUTPUT_VALUE"
      and "None \<in> set (block_inputList G (world s) b)"
      and "find (\<lambda>c. compatible G (world s) (c, d))
             (filter (\<lambda>c. conn_type G c = INPUT_VALUE)
                (inputs_before_null (block_inputList G (world s) b))) = None"
  shows "insertBlock G s b d = (TypeError, s)"
  using assms by (simp add: insertBlock_def insertBlock_inputs_find)

lemma insertBlock_attempt_frame:
  "snd (case conn_type G d of
      PREVIOUS_STATEMENT \<Rightarrow> moveAndConnect G s (block_nextConnection G (world s) b) (Some d)
    | NEXT_STATEMENT \<Rightarrow> moveAndConnect G s (block_previousConnection G (world s) b) (Some d)
    | INPUT_VALUE \<Rightarrow> moveAndConnect G s (block_outputConnection G (world s) b) (Some d)
    | OUTPUT_VALUE \<Rightarrow> insertBlock_inputs G s (block_inputList G (world s) b) d)
   = s\<lparr>world := world (snd (case conn_type G d of
      PREVIOUS_STATEMENT \<Rightarrow> moveAndConnect G s (block_nextConnection G (world s) b) (Some d)
    | NEXT_STATEMENT \<Rightarrow> moveAndConnect G s (block_previousConnection G (world s) b) (Some d)
    | INPUT_VALUE \<Rightarrow> moveAndConnect G s (block_outputConnection G (world s) b) (Some d)
    | OUTPUT_VALUE \<Rightarrow> insertBlock_inputs G s (block_inputList G (world s) b) d))\<rparr>"
proof (cases "conn_type G d")
  case OUTPUT_VALUE
  then show ?thesis using insertBlock_inputs_frame[of G s _ d] by simp
next
  case PREVIOUS_STATEMENT
  obtain w1 where "snd (moveAndConnect G s (block_nextConnection G (world s) b) (Some d))
                     = s\<lparr>world := w1\<rparr>"
    using moveAndConnect_frame[of G s _ "Some d"] by metis
  then show ?thesis using PREVIOUS_STATEMENT by simp
next
  case NEXT_STATEMENT
  obtain w1 where "snd (moveAndConnect G s (block_previousConnection G (world s) b) (Some d))
                     = s\<lparr>world := w1\<rparr>"
    using moveAndConnect_frame[of G s _ "Some d"] by metis
  then show ?thesis using NEXT_STATEMENT by simp
next
  case INPUT_VALUE
  obtain w1 where "snd (moveAndConnect G s (block_outputConnection G (world s) b) (Some d))
                     = s\<lparr>world := w1\<rparr>"
    using moveAndConnect_frame[of G s _ "Some d"] by metis
  then show ?thesis using INPUT_VALUE by simp
qed

lemma insertBlock_attempt_not_True:
  "fst (case conn_type G d of
      PREVIOUS_STATEMENT \<Rightarrow> moveAndConnect G s (block_nextConnection G (world s) b) (Some d)
    | NEXT_STATEMENT \<Rightarrow> moveAndConnect G s (block_previousConnection G (world s) b) (Some d)
    | INPUT_VALUE \<Rightarrow> moveAndConnect G s (block_outputConnection G (world s) b) (Some d)
    | OUTPUT_VALUE \<Rightarrow> insertBlock_inputs G s (block_inputList G (world s) b) d) \<noteq> Normal True
   \<Longrightarrow>
   snd (case conn_type G d of
      PREVIOUS_STATEMENT \<Rightarrow> moveAndConnect G s (block_nextConnection G (world s) b) (Some d)
    | NEXT_STATEMENT \<Rightarrow> moveAndConnect G s (block_previousConnection G (world s) b) (Some d)
    | INPUT_VALUE \<Rightarrow> moveAndConnect G s (block_outputConnection G (world s) b) (Some d)
    | OUTPUT_VALUE \<Rightarrow> insertBlock_inputs G s (block_inputList G (world s) b) d) = s"
  by (cases "conn_type G d")
     (simp_all add: moveAndConnect_not_True insertBlock_inputs_not_True)

lemma insertBlock_frame:
  "snd (insertBlock G s b d) =
     s\<lparr>world := world (snd (insertBlock G s b d)), logged := logged (snd (insertBlock G s b d))\<rparr>"
proof -
  obtain r s1 where a: "(case conn_type G d of
      PREVIOUS_STATEMENT \<Rightarrow> moveAndConnect G s (block_nextConnection G (world s) b) (Some d)
    | NEXT_STATEMENT \<Rightarrow> moveAndConnect G s (block_previousConnection G (world s) b) (Some d)
    | INPUT_VALUE \<Rightarrow> moveAndConnect G s (block_outputConnection G (world s) b) (Some d)
    | OUTPUT_VALUE \<Rightarrow> insertBlock_inputs G s (block_inputList G (world s) b) d) = (r, s1)"
    by (rule prod.exhaust)
  have "s1 = s\<lparr>world := world s1\<rparr>"
    using insertBlock_attempt_frame[of G s b d] unfolding a by simp
  then obtain w1 where s1: "s1 = s\<lparr>world := w1\<rparr>" ..
  show ?thesis
    unfolding insertBlock_def a
    by (cases r) (simp_all add: s1 warn_def split: bool.splits)
qed

lemma insertBlock_not_True_world:
  "fst (insertBlock G s b d) \<noteq> Normal True \<Longrightarrow> world (snd (insertBlock G s b d)) = world s"
  unfolding insertBlock_def
  using insertBlock_attempt_not_True[of G s b d]
  by (auto simp: warn_def split: prod.splits completion.splits bool.splits)


subsection \<open>The focus state along the operations\<close>

lemma connect_currentState: "currentState (snd (connect G s a b)) = currentState s"
  by (subst connect_frame) simp

lemma insertBlock_currentState: "currentState (snd (insertBlock G s b d)) = currentState s"
  by (subst insertBlock_frame) simp

lemma modify_currentState: "currentState (snd (modify G s)) = currentState s"
  by (simp add: modify_def Let_def warn_def modify_moveToWorkspace_def
      connect_currentState insertBlock_currentState
      split: option.splits astnode.splits)

lemma focusToolbox_currentState: "currentState (snd (focusToolbox U s)) = STATE_TOOLBOX"
  by (simp add: focusToolbox_def resetFlyout_def Let_def cursor_hide_def markAtCursor_def
      marker_setLocation_def split: option.splits)

lemma focusFlyout_currentState: "currentState (focusFlyout U s) = STATE_FLYOUT"
  by (simp add: focusFlyout_def Let_def markAtCursor_def marker_setLocation_def
      cursor_setLocation_def split: option.splits list.splits)

lemma focusWorkspace_currentState:
  "currentState (snd (focusWorkspace G U s)) =
     (if fst (focusWorkspace G U s) = TypeError then currentState s else STATE_WS)"
  by (simp add: focusWorkspace_def resetFlyout_def Let_def cursor_hide_def
      enableKeyboardAccessibility_def cursor_setLocation_def split: option.splits)

lemma focusWorkspace_Normal:
  "focusWorkspace G U s = (Normal u, s') \<Longrightarrow> currentState s' = STATE_WS"
  using focusWorkspace_currentState[of G U s] by simp

lemma selectNext_currentState: "currentState (selectNextBlockInFlyout U s) = currentState s"
  by (simp add: selectNextBlockInFlyout_def Let_def cursor_setLocation_def split: option.splits)

lemma selectPrevious_currentState: "currentState (selectPreviousBlockInFlyout U s) = currentState s"
  by (simp add: selectPreviousBlockInFlyout_def Let_def cursor_setLocation_def split: option.splits)

lemma nextCategory_currentState: "currentState (nextCategory U s) = currentState s"
  by (simp add: nextCategory_def split: option.splits)

lemma previousCategory_currentState: "currentState (previousCategory U s) = currentState s"
  by (simp add: previousCategory_def split: option.splits)

lemma outCategory_currentState: "currentState (outCategory U s) = currentState s"
  by (simp add: outCategory_def split: option.splits)

lemma inCategory_currentState:
  "currentState (inCategory U s) = STATE_FLYOUT \<or> currentState (inCategory U s) = currentState s"
  by (simp add: inCategory_def focusFlyout_currentState split: option.splits)

lemma insertFromFlyout_not_shown:
  "\<not> flyoutShown U (world s) \<Longrightarrow>
   insertFromFlyout G U s =
     (Normal (),
      warn ''Trying to insert from the flyout when the flyout does not  exist or is not visible'' s)"
  by (simp add: insertFromFlyout_def flyoutShown_def split: option.splits)

lemma insertFromFlyout_shown:
  "flyoutShown U (world s) \<Longrightarrow> fst (insertFromFlyout G U s) \<noteq> TypeError \<Longrightarrow>
   currentState (snd (insertFromFlyout G U s)) = STATE_WS"
  by (auto simp: insertFromFlyout_def flyoutShown_def Let_def removeMark_def marker_hide_def
      marker_setLocation_def cursor_setLocation_def
      split: option.splits prod.splits completion.splits if_splits
      dest: focusWorkspace_Normal)

lemma snd_handled: "snd (handled r) = snd r"
  by (cases r) (simp add: handled_def split: completion.splits)

lemma fst_handled_TypeError: "(fst (handled r) = TypeError) = (fst r = TypeError)"
  by (cases r) (simp add: handled_def split: completion.splits)

lemmas actionNames_defs =
  actionNames_PREVIOUS_def actionNames_OUT_def actionNames_NEXT_def actionNames_IN_def
  actionNames_INSERT_def actionNames_MARK_def actionNames_DISCONNECT_def
  actionNames_TOOLBOX_def actionNames_EXIT_def

lemma flyoutOnAction_state:
  "currentState (snd (flyoutOnAction G U s name)) =
     (if name = actionNames_PREVIOUS then currentState s
      else if name = actionNames_OUT then STATE_TOOLBOX
      else if name = actionNames_NEXT then currentState s
      else if name = actionNames_MARK then currentState (snd (insertFromFlyout G U s))
      else if name = actionNames_EXIT then currentState (snd (focusWorkspace G U s))
      else currentState s)"
  by (simp add: flyoutOnAction_def snd_handled
      selectNext_currentState selectPrevious_currentState focusToolbox_currentState)

lemma toolboxOnAction_state:
  "currentState (snd (toolboxOnAction G U s name)) =
     (if name = actionNames_PREVIOUS then currentState s
      else if name = actionNames_OUT then currentState s
      else if name = actionNames_NEXT then currentState s
      else if name = actionNames_IN then currentState (inCategory U s)
      else if name = actionNames_EXIT then currentState (snd (focusWorkspace G U s))
      else currentState s)"
  by (simp add: toolboxOnAction_def snd_handled
      nextCategory_currentState previousCategory_currentState outCategory_currentState)

lemma dispatch_to_workspace_only:
  assumes "currentState s \<noteq> STATE_WS"
      and "currentState (snd (onBlocklyAction G U s name)) = STATE_WS"
  shows "name = actionNames_EXIT
         \<or> (currentState s = STATE_FLYOUT \<and> name = actionNames_MARK \<and> flyoutShown U (world s))"
proof (cases "currentState s")
  case STATE_WS
  then show ?thesis using assms by simp
next
  case STATE_FLYOUT
  then have a: "currentState (snd (flyoutOnAction G U s name)) = STATE_WS"
    using assms(2) by (simp add: onBlocklyAction_def)
  show ?thesis
  proof (cases "name = actionNames_MARK")
    case True
    have "flyoutShown U (world s)"
    proof (rule ccontr)
      assume "\<not> flyoutShown U (world s)"
      then have "currentState (snd (insertFromFlyout G U s)) = currentState s"
        by (simp add: insertFromFlyout_not_shown warn_def)
      then show False using a True STATE_FLYOUT
        by (simp add: flyoutOnAction_state actionNames_defs)
    qed
    then show ?thesis using True STATE_FLYOUT by simp
  next
    case False
    then show ?thesis using a STATE_FLYOUT
      by (simp add: flyoutOnAction_state split: if_splits)
  qed
next
  case STATE_TOOLBOX
  then have a: "currentState (snd (toolboxOnAction G U s name)) = STATE_WS"
    using assms(2) by (simp add: onBlocklyAction_def)
  then show ?thesis using STATE_TOOLBOX inCategory_currentState[of U s]
    by (simp add: toolboxOnAction_state split: if_splits)
qed

lemma dispatch_mark_in_flyout:
  assumes "currentState s = STATE_FLYOUT" and "flyoutShown U (world s)"
      and "fst (onBlocklyAction G U s actionNames_MARK) \<noteq> TypeError"
  shows "currentState (snd (onBlocklyAction G U s actionNames_MARK)) = STATE_WS"
proof -
  have "onBlocklyAction G U s actionNames_MARK = handled (insertFromFlyout G U s)"
    using assms(1) by (simp add: onBlocklyAction_def flyoutOnAction_def actionNames_defs)
  then show ?thesis using assms(2,3)
    by (simp add: snd_handled fst_handled_TypeError insertFromFlyout_shown)
qed

lemma dispatch_mark_without_flyout:
  assumes "currentState s = STATE_FLYOUT" and "\<not> flyoutShown U (world s)"
  shows "currentState (snd (onBlocklyAction G U s actionNames_MARK)) = STATE_FLYOUT"
proof -
  have "onBlocklyAction G U s actionNames_MARK = handled (insertFromFlyout G U s)"
    using assms(1) by (simp add: onBlocklyAction_def flyoutOnAction_def actionNames_defs)
  then show ?thesis using assms
    by (simp add: snd_handled insertFromFlyout_not_shown warn_def)
qed

subsection \<open>The marker on entering the toolbox or the flyout\<close>

lemma focusToolbox_marker:
  "marker (snd (focusToolbox U s)) = (if marker s = None then cursor s else marker s)"
  by (cases "marker s")
     (simp_all add: focusToolbox_def resetFlyout_def Let_def cursor_hide_def
        markAtCursor_def marker_setLocation_def split: option.splits)

lemma focusFlyout_marker:
  "marker (focusFlyout U s) = (if marker s = None then cursor s else marker s)"
  by (cases "marker s")
     (simp_all add: focusFlyout_def Let_def markAtCursor_def marker_setLocation_def
        cursor_setLocation_def split: option.splits list.splits)


subsection \<open>Cycles\<close>

lemma single_valued_parent_rel: "single_valued (parent_rel G w)"
  by (auto simp: single_valued_def parent_rel_def)

lemma no_parent_rtrancl:
  assumes "block_getParent G w x = None" and "(x, r) \<in> (parent_rel G w)\<^sup>*"
  shows "r = x"
  using assms(2,1) by (induction rule: converse_rtrancl_induct) (auto simp: parent_rel_def)

lemma roots_differ_not_same_tree:
  assumes co: "coherent G w"
      and ne: "block_getRootBlock G w x \<noteq> block_getRootBlock G w y"
  shows "\<not> same_tree G w x y"
proof
  assume "same_tree G w x y"
  then obtain r where rx: "(x, r) \<in> (parent_rel G w)\<^sup>*" and ry: "(y, r) \<in> (parent_rel G w)\<^sup>*"
    by (auto simp: same_tree_def)
  have up: "\<And>z. (z, r) \<in> (parent_rel G w)\<^sup>* \<Longrightarrow> (r, block_getRootBlock G w z) \<in> (parent_rel G w)\<^sup>*"
  proof -
    fix z assume zr: "(z, r) \<in> (parent_rel G w)\<^sup>*"
    have zroot: "(z, block_getRootBlock G w z) \<in> (parent_rel G w)\<^sup>*"
      and np: "block_getParent G w (block_getRootBlock G w z) = None"
      using co by (auto simp: coherent_def)
    from single_valued_confluent[OF single_valued_parent_rel zr zroot]
    show "(r, block_getRootBlock G w z) \<in> (parent_rel G w)\<^sup>*"
      using no_parent_rtrancl[OF np] by auto
  qed
  have a: "(r, block_getRootBlock G w x) \<in> (parent_rel G w)\<^sup>*" using up[OF rx] .
  have b: "(r, block_getRootBlock G w y) \<in> (parent_rel G w)\<^sup>*" using up[OF ry] .
  have npx: "block_getParent G w (block_getRootBlock G w x) = None"
    and npy: "block_getParent G w (block_getRootBlock G w y) = None"
    using co by (auto simp: coherent_def)
  from single_valued_confluent[OF single_valued_parent_rel a b]
  have "block_getRootBlock G w x = block_getRootBlock G w y"
  proof
    assume "(block_getRootBlock G w x, block_getRootBlock G w y) \<in> (parent_rel G w)\<^sup>*"
    then have "block_getRootBlock G w y = block_getRootBlock G w x"
      by (rule no_parent_rtrancl[OF npx])
    then show ?thesis by simp
  next
    assume "(block_getRootBlock G w y, block_getRootBlock G w x) \<in> (parent_rel G w)\<^sup>*"
    then show ?thesis by (rule no_parent_rtrancl[OF npy])
  qed
  then show False using ne by simp
qed

lemma severed_not_same_tree:
  assumes sub: "\<forall>y. (y, x) \<in> (parent_rel G w1)\<^sup>* \<longrightarrow> (y, x) \<in> (parent_rel G w)\<^sup>*"
      and np: "block_getParent G w1 x = None"
      and nd: "(y, x) \<notin> (parent_rel G w)\<^sup>*"
  shows "\<not> same_tree G w1 x y" and "\<not> same_tree G w1 y x"
proof -
  have "\<And>r. (x, r) \<in> (parent_rel G w1)\<^sup>* \<Longrightarrow> (y, r) \<in> (parent_rel G w1)\<^sup>* \<Longrightarrow> False"
  proof -
    fix r assume xr: "(x, r) \<in> (parent_rel G w1)\<^sup>*" and yr: "(y, r) \<in> (parent_rel G w1)\<^sup>*"
    have "r = x" using no_parent_rtrancl[OF np xr] .
    then have "(y, x) \<in> (parent_rel G w1)\<^sup>*" using yr by simp
    then have "(y, x) \<in> (parent_rel G w)\<^sup>*" using sub by simp
    then show False using nd by simp
  qed
  then show "\<not> same_tree G w1 x y" and "\<not> same_tree G w1 y x"
    by (auto simp: same_tree_def)
qed

lemma acyclic_no_back:
  assumes "acyclic R" and "(d, m) \<in> R\<^sup>*" and "m \<noteq> d"
  shows "(m, d) \<notin> R\<^sup>*"
proof
  assume "(m, d) \<in> R\<^sup>*"
  then have "(m, d) \<in> R\<^sup>+" using assms(3) by (auto simp: rtrancl_eq_or_trancl)
  moreover have "(d, m) \<in> R\<^sup>+" using assms(2,3) by (auto simp: rtrancl_eq_or_trancl)
  ultimately have "(m, m) \<in> R\<^sup>+" by (rule trancl_trans)
  then show False using assms(1) by (auto simp: acyclic_def)
qed


lemma same_parents_same_rel:
  "block_getParent G w' = block_getParent G w \<Longrightarrow> parent_rel G w' = parent_rel G w"
  by (simp add: parent_rel_def)

lemma disconnectChild_separates:
  assumes ct: "graph_contract G"
      and co: "coherent G (world s)"
      and cf: "cycle_free G (world s)"
      and cp: "compatible G (world s) (a, b)"
      and dc: "disconnectChild G s a b = (Normal u, s1)"
  shows "cycle_free G (world s1)
         \<and> \<not> same_tree G (world s1) (conn_getSourceBlock G a) (conn_getSourceBlock G b)"
proof -
  let ?w = "world s"
  let ?M = "conn_getSourceBlock G a"
  let ?D = "conn_getSourceBlock G b"
  have ne: "?M \<noteq> ?D"
    using ct cp by (simp add: graph_contract_def compatible_def)
  have disc: "\<And>x c. getInferiorConnection G ?w x = Some c \<Longrightarrow>
                cycle_free G (conn_disconnect G c ?w)
                \<and> block_getParent G (conn_disconnect G c ?w) (conn_getSourceBlock G x) = None
                \<and> (\<forall>y. (y, conn_getSourceBlock G x) \<in> (parent_rel G (conn_disconnect G c ?w))\<^sup>* \<longrightarrow>
                         (y, conn_getSourceBlock G x) \<in> (parent_rel G ?w)\<^sup>*)"
    using ct cf unfolding graph_contract_def by blast
  have desc: "(?D \<in> set (block_getDescendants G ?w ?M)) = ((?D, ?M) \<in> (parent_rel G ?w)\<^sup>*)"
    using co by (simp add: coherent_def)
  show ?thesis
  proof (cases "block_getRootBlock G ?w ?M = block_getRootBlock G ?w ?D")
    case False
    then have "s1 = s" using dc by (simp add: disconnectChild_def Let_def)
    then show ?thesis using cf roots_differ_not_same_tree[OF co False] by simp
  next
    case True
    show ?thesis
    proof (cases "(?D, ?M) \<in> (parent_rel G ?w)\<^sup>*")
      case True
      note below = this
      then obtain c where c: "getInferiorConnection G ?w b = Some c"
                      and s1: "s1 = s\<lparr>world := conn_disconnect G c ?w\<rparr>"
        using dc \<open>block_getRootBlock G ?w ?M = block_getRootBlock G ?w ?D\<close> desc
        by (auto simp: disconnectChild_def Let_def split: option.splits)
      have cf1: "cycle_free G (conn_disconnect G c ?w)"
        and np: "block_getParent G (conn_disconnect G c ?w) ?D = None"
        and sub: "\<forall>y. (y, ?D) \<in> (parent_rel G (conn_disconnect G c ?w))\<^sup>* \<longrightarrow>
                      (y, ?D) \<in> (parent_rel G ?w)\<^sup>*"
        using disc[OF c] by simp_all
      have nb: "(?M, ?D) \<notin> (parent_rel G ?w)\<^sup>*"
        using acyclic_no_back[OF _ below ne] cf by (simp add: cycle_free_def)
      note cf1
      moreover have "\<not> same_tree G (conn_disconnect G c ?w) ?M ?D"
        using severed_not_same_tree(2)[OF sub np nb] .
      ultimately show ?thesis using s1 by simp
    next
      case False
      then obtain c where c: "getInferiorConnection G ?w a = Some c"
                      and s1: "s1 = s\<lparr>world := conn_disconnect G c ?w\<rparr>"
        using dc True desc
        by (auto simp: disconnectChild_def Let_def split: option.splits)
      have cf1: "cycle_free G (conn_disconnect G c ?w)"
        and np: "block_getParent G (conn_disconnect G c ?w) ?M = None"
        and sub: "\<forall>y. (y, ?M) \<in> (parent_rel G (conn_disconnect G c ?w))\<^sup>* \<longrightarrow>
                      (y, ?M) \<in> (parent_rel G ?w)\<^sup>*"
        using disc[OF c] by simp_all
      note cf1
      moreover have "\<not> same_tree G (conn_disconnect G c ?w) ?M ?D"
        using severed_not_same_tree(1)[OF sub np False] .
      ultimately show ?thesis using s1 by simp
    qed
  qed
qed

lemma moveAndConnect_cycle_free:
  assumes ct: "graph_contract G"
      and co: "coherent G (world s)"
      and cf: "cycle_free G (world s)"
      and mc: "moveAndConnect G s (Some a) (Some b) = (Normal True, s')"
  shows "cycle_free G (world s')"
proof -
  have cp: "compatible G (world s) (a, b)"
  proof (rule ccontr)
    assume "\<not> compatible G (world s) (a, b)"
    then show False using mc by (simp add: moveAndConnect_incompatible)
  qed
  have sup: "conn_isSuperior G a \<noteq> conn_isSuperior G b"
    using ct cp by (simp add: graph_contract_def compatible_def)
  obtain r s1 where dc: "disconnectChild G s a b = (r, s1)"
    by (cases "disconnectChild G s a b")
  have r: "r = Normal ()"
    using mc dc by (cases r) (simp_all add: moveAndConnect_compatible[OF cp])
  let ?w2 = "if conn_isSuperior G b then world s1
             else block_positionNearConnection G
                    (block_getRootBlock G (world s1) (conn_getSourceBlock G a)) a b (world s1)"
  have s': "world s' = conn_connect G b a ?w2"
    using mc dc r by (auto simp: moveAndConnect_compatible[OF cp])
  have sep: "cycle_free G (world s1)
             \<and> \<not> same_tree G (world s1) (conn_getSourceBlock G a) (conn_getSourceBlock G b)"
    using disconnectChild_separates[OF ct co cf cp] dc r by simp
  have "block_getParent G ?w2 = block_getParent G (world s1)"
    using ct by (simp add: graph_contract_def)
  then have rel: "parent_rel G ?w2 = parent_rel G (world s1)"
    by (rule same_parents_same_rel)
  have "cycle_free G ?w2
        \<and> \<not> same_tree G ?w2 (conn_getSourceBlock G a) (conn_getSourceBlock G b)"
    using sep unfolding cycle_free_def same_tree_def rel by simp
  then have "cycle_free G (conn_connect G b a ?w2)"
    using ct sup unfolding graph_contract_def by blast
  then show ?thesis using s' by simp
qed

lemma moveAndConnect_True_compatible:
  "moveAndConnect G s (Some a) (Some b) = (Normal True, s') \<Longrightarrow> compatible G (world s) (a, b)"
  by (rule ccontr) (simp add: moveAndConnect_incompatible)

lemma moveAndConnect_severs_first:
  assumes mc: "moveAndConnect G s (Some a) (Some b) = (Normal True, s')"
      and rt: "block_getRootBlock G (world s) (conn_getSourceBlock G a)
                 = block_getRootBlock G (world s) (conn_getSourceBlock G b)"
  shows "\<exists>c. getInferiorConnection G (world s)
                (if conn_getSourceBlock G b
                      \<in> set (block_getDescendants G (world s) (conn_getSourceBlock G a))
                 then b else a) = Some c
             \<and> world s' = conn_connect G b a
                  (if conn_isSuperior G b then conn_disconnect G c (world s)
                   else block_positionNearConnection G
                          (block_getRootBlock G (conn_disconnect G c (world s)) (conn_getSourceBlock G a))
                          a b (conn_disconnect G c (world s)))"
proof -
  let ?x = "if conn_getSourceBlock G b
                 \<in> set (block_getDescendants G (world s) (conn_getSourceBlock G a))
            then b else a"
  have cp: "compatible G (world s) (a, b)"
    using mc by (rule moveAndConnect_True_compatible)
  have dc: "disconnectChild G s a b =
              (case getInferiorConnection G (world s) ?x of
                 None \<Rightarrow> (TypeError, s)
               | Some c \<Rightarrow> (Normal (), s\<lparr>world := conn_disconnect G c (world s)\<rparr>))"
    using rt by (simp add: disconnectChild_def Let_def)
  show ?thesis
  proof (cases "getInferiorConnection G (world s) ?x")
    case None
    then show ?thesis using mc dc by (simp add: moveAndConnect_compatible[OF cp])
  next
    case (Some c)
    then have "world s' = conn_connect G b a
                  (if conn_isSuperior G b then conn_disconnect G c (world s)
                   else block_positionNearConnection G
                          (block_getRootBlock G (conn_disconnect G c (world s)) (conn_getSourceBlock G a))
                          a b (conn_disconnect G c (world s)))"
      using mc dc by (auto simp: moveAndConnect_compatible[OF cp])
    then show ?thesis using Some by simp
  qed
qed

subsection \<open>The small editor keeps what is relied on\<close>

lemma toy_parent_top:
  "toy_parent w b = (case targets w (4 * b) of None \<Rightarrow> None | Some t \<Rightarrow> Some (t div 4))"
  by (simp add: toy_parent_def toy_previous_def toy_output_def)

lemma toy_superior: "conn_isSuperior toy_graph c = (c mod 4 \<noteq> 0)"
  by (auto simp: toy_graph_def toy_type_def)

lemma toy_source: "conn_getSourceBlock toy_graph c = c div 4"
  by (simp add: toy_graph_def)

lemma toy_getParent: "block_getParent toy_graph = toy_parent"
  by (simp add: toy_graph_def)

lemma toy_inferior: "getInferiorConnection toy_graph w x = Some (4 * (x div 4))"
proof (cases "x mod 4 = 0")
  case True
  then have "4 * (x div 4) = x" by presburger
  then show ?thesis using True by (simp add: getInferiorConnection_def toy_superior)
next
  case False
  then show ?thesis
    by (simp add: getInferiorConnection_def toy_superior toy_source Let_def)
       (simp add: toy_graph_def toy_previous_def toy_output_def)
qed

lemma toy_disconnect_targets:
  "targets (toy_disconnect c w) k = Some t \<Longrightarrow> targets w k = Some t"
  by (auto simp: toy_disconnect_def split: option.splits if_splits)

lemma toy_disconnect_self: "targets (toy_disconnect c w) c = None"
  by (auto simp: toy_disconnect_def split: option.splits)

lemma toy_parent_Some:
  "(toy_parent w b = Some p) = (\<exists>t. targets w (4 * b) = Some t \<and> p = t div 4)"
  by (auto simp: toy_parent_top split: option.splits)

lemma toy_rel_iff:
  "((x, p) \<in> parent_rel toy_graph w) = (\<exists>t. targets w (4 * x) = Some t \<and> p = t div 4)"
  by (simp add: parent_rel_def toy_getParent toy_parent_Some)

lemma toy_disconnect_rel:
  "parent_rel toy_graph (toy_disconnect c w) \<subseteq> parent_rel toy_graph w"
proof (rule subrelI)
  fix x p assume "(x, p) \<in> parent_rel toy_graph (toy_disconnect c w)"
  then obtain t where t: "targets (toy_disconnect c w) (4 * x) = Some t" and p: "p = t div 4"
    unfolding toy_rel_iff by blast
  from t have "targets w (4 * x) = Some t" by (rule toy_disconnect_targets)
  then show "(x, p) \<in> parent_rel toy_graph w"
    unfolding toy_rel_iff using p by blast
qed

lemma toy_connect_targets:
  assumes "targets (toy_connect d m w) k = Some t"
  shows "(k = d \<and> t = m) \<or> (k = m \<and> t = d) \<or> targets w k = Some t"
proof (cases "k = m \<or> k = d")
  case True
  then show ?thesis using assms by (auto simp: toy_connect_def Let_def split: if_splits)
next
  case False
  then have "targets (toy_disconnect m (toy_disconnect d w)) k = Some t"
    using assms by (simp add: toy_connect_def Let_def)
  then have "targets w k = Some t"
    by (blast dest: toy_disconnect_targets)
  then show ?thesis by simp
qed

lemma toy_connect_rel:
  assumes a: "a mod 4 = 0" and b: "b mod 4 \<noteq> 0"
      and dm: "(d = a \<and> m = b) \<or> (d = b \<and> m = a)"
  shows "parent_rel toy_graph (toy_connect d m w) \<subseteq> insert (a div 4, b div 4) (parent_rel toy_graph w)"
proof (rule subrelI)
  fix x p assume "(x, p) \<in> parent_rel toy_graph (toy_connect d m w)"
  then obtain t where t: "targets (toy_connect d m w) (4 * x) = Some t" and p: "p = t div 4"
    unfolding toy_rel_iff by blast
  have nb: "4 * x \<noteq> b" using b by presburger
  from toy_connect_targets[OF t]
  consider "4 * x = d \<and> t = m" | "4 * x = m \<and> t = d" | "targets w (4 * x) = Some t"
    by blast
  then show "(x, p) \<in> insert (a div 4, b div 4) (parent_rel toy_graph w)"
  proof cases
    case 1
    then have "4 * x = a" and "t = b" using dm nb by blast+
    then have "x = a div 4" and "p = b div 4" using p by simp_all
    then show ?thesis by simp
  next
    case 2
    then have "4 * x = a" and "t = b" using dm nb by blast+
    then have "x = a div 4" and "p = b div 4" using p by simp_all
    then show ?thesis by simp
  next
    case 3
    then have "(x, p) \<in> parent_rel toy_graph w"
      unfolding toy_rel_iff using p by blast
    then show ?thesis by simp
  qed
qed

lemma same_tree_reach:
  "(p, c) \<in> (parent_rel G w)\<^sup>* \<Longrightarrow> same_tree G w c p"
  "(p, c) \<in> (parent_rel G w)\<^sup>* \<Longrightarrow> same_tree G w p c"
  by (auto simp: same_tree_def)

lemma toy_connect_cycle_free:
  assumes cf: "cycle_free toy_graph w"
      and st: "\<not> same_tree toy_graph w (a div 4) (b div 4)"
      and su: "(a mod 4 \<noteq> 0) \<noteq> (b mod 4 \<noteq> 0)"
  shows "cycle_free toy_graph (toy_connect b a w)"
proof (cases "a mod 4 = 0")
  case True
  then have b: "b mod 4 \<noteq> 0" using su by simp
  have "(b div 4, a div 4) \<notin> (parent_rel toy_graph w)\<^sup>*"
    using st same_tree_reach(1)[of "b div 4" "a div 4" toy_graph w] by blast
  then have ac: "acyclic (insert (a div 4, b div 4) (parent_rel toy_graph w))"
    using cf by (simp add: cycle_free_def)
  have sub: "parent_rel toy_graph (toy_connect b a w)
               \<subseteq> insert (a div 4, b div 4) (parent_rel toy_graph w)"
    by (rule toy_connect_rel[OF True b]) simp
  show ?thesis unfolding cycle_free_def by (rule acyclic_subset[OF ac sub])
next
  case False
  then have b: "b mod 4 = 0" using su by simp
  have "(a div 4, b div 4) \<notin> (parent_rel toy_graph w)\<^sup>*"
    using st same_tree_reach(2)[of "a div 4" "b div 4" toy_graph w] by blast
  then have ac: "acyclic (insert (b div 4, a div 4) (parent_rel toy_graph w))"
    using cf by (simp add: cycle_free_def)
  have sub: "parent_rel toy_graph (toy_connect b a w)
               \<subseteq> insert (b div 4, a div 4) (parent_rel toy_graph w)"
    by (rule toy_connect_rel[OF b False]) simp
  show ?thesis unfolding cycle_free_def by (rule acyclic_subset[OF ac sub])
qed

lemma toy_compatible:
  "toy_reason b a = CAN_CONNECT \<Longrightarrow> a div 4 \<noteq> b div 4 \<and> (a mod 4 \<noteq> 0) \<noteq> (b mod 4 \<noteq> 0)"
  by (auto simp: toy_reason_def CAN_CONNECT_def toy_type_def split: if_splits)

lemma toy_contract: "graph_contract toy_graph"
  unfolding graph_contract_def
proof (intro conjI allI impI)
  fix w a b assume "conn_canConnectWithReason toy_graph w b a = CAN_CONNECT"
  then have "toy_reason b a = CAN_CONNECT" by (simp add: toy_graph_def)
  from toy_compatible[OF this]
  show "conn_getSourceBlock toy_graph a \<noteq> conn_getSourceBlock toy_graph b"
    and "conn_isSuperior toy_graph a \<noteq> conn_isSuperior toy_graph b"
    by (simp_all add: toy_source toy_superior)
next
  fix w x c assume "getInferiorConnection toy_graph w x = Some c"
  then have c: "c = 4 * (x div 4)" by (simp add: toy_inferior)
  have d: "conn_disconnect toy_graph = toy_disconnect" by (simp add: toy_graph_def)
  show "block_getParent toy_graph (conn_disconnect toy_graph c w) (conn_getSourceBlock toy_graph x) = None"
    by (simp add: d toy_getParent toy_parent_top toy_source c toy_disconnect_self)
  {
    assume "cycle_free toy_graph w"
    then show "cycle_free toy_graph (conn_disconnect toy_graph c w)"
      unfolding cycle_free_def d using toy_disconnect_rel by (rule acyclic_subset)
  }
  {
    fix y
    assume "(y, conn_getSourceBlock toy_graph x) \<in> (parent_rel toy_graph (conn_disconnect toy_graph c w))\<^sup>*"
    then show "(y, conn_getSourceBlock toy_graph x) \<in> (parent_rel toy_graph w)\<^sup>*"
      unfolding d using rtrancl_mono[OF toy_disconnect_rel] by blast
  }
next
  fix w r a b
  show "block_getParent toy_graph (block_positionNearConnection toy_graph r a b w)
          = block_getParent toy_graph w"
    by (simp add: toy_graph_def)
next
  fix w a b
  assume h: "cycle_free toy_graph w
             \<and> \<not> same_tree toy_graph w (conn_getSourceBlock toy_graph a) (conn_getSourceBlock toy_graph b)
             \<and> conn_isSuperior toy_graph a \<noteq> conn_isSuperior toy_graph b"
  have "conn_connect toy_graph b a w = toy_connect b a w" by (simp add: toy_graph_def)
  then show "cycle_free toy_graph (conn_connect toy_graph b a w)"
    using h toy_connect_cycle_free[of w a b] by (simp add: toy_source toy_superior)
qed


lemma toy_joined_parent:
  "toy_parent (world toy_joined) x = (if x = 2 then Some 0 else None)"
proof -
  have "4 * x \<noteq> 1" by presburger
  moreover have "(4 * x = 8) = (x = 2)" by presburger
  ultimately show ?thesis
    by (simp add: toy_parent_top toy_joined_def toy_start_def)
qed

lemma toy_joined_rel: "parent_rel toy_graph (world toy_joined) = {(2, 0)}"
  by (auto simp: parent_rel_def toy_getParent toy_joined_parent split: if_splits)

lemma toy_joined_reach:
  "((d, m) \<in> (parent_rel toy_graph (world toy_joined))\<^sup>*) = (d = m \<or> (d = 2 \<and> m = 0))"
  by (auto simp: toy_joined_rel rtrancl_insert)

lemma toy_joined_cycle_free: "cycle_free toy_graph (world toy_joined)"
proof -
  have "acyclic ({} :: (block \<times> block) set)" by (simp add: acyclic_def)
  then show ?thesis by (simp add: cycle_free_def toy_joined_rel)
qed

lemma toy_joined_chain:
  "toy_chain (Suc (Suc (Suc 0))) (world toy_joined) x = (if x = 2 then [2, 0] else [x])"
  by (simp add: toy_joined_parent)

lemma toy_joined_coherent: "coherent toy_graph (world toy_joined)"
  unfolding coherent_def
proof (intro conjI allI)
  fix x
  have r: "block_getRootBlock toy_graph (world toy_joined) x = (if x = 2 then 0 else x)"
    by (simp add: toy_graph_def toy_joined_chain del: toy_chain.simps)
  show "(x, block_getRootBlock toy_graph (world toy_joined) x)
          \<in> (parent_rel toy_graph (world toy_joined))\<^sup>*"
    by (simp add: r toy_joined_reach)
  show "block_getParent toy_graph (world toy_joined)
          (block_getRootBlock toy_graph (world toy_joined) x) = None"
    by (simp add: r toy_getParent toy_joined_parent)
next
  fix m d
  have "block_getDescendants toy_graph (world toy_joined) m
          = m # filter (\<lambda>x. x \<noteq> m \<and> m \<in> set (if x = 2 then [2, 0] else [x])) [0, 1, 2, 3]"
    by (simp only: toy_graph_def graph_ops.select_convs toy_joined_chain)
  then have "(d \<in> set (block_getDescendants toy_graph (world toy_joined) m))
               = (d = m \<or> (d \<in> {0, 1, 2, 3} \<and> d \<noteq> m
                               \<and> m \<in> set (if d = 2 then [2, 0] else [d])))"
    by (auto; arith)
  also have "\<dots> = (d = m \<or> (d = 2 \<and> m = 0))"
    by (cases "d = 2") auto
  finally show "(d \<in> set (block_getDescendants toy_graph (world toy_joined) m))
          = ((d, m) \<in> (parent_rel toy_graph (world toy_joined))\<^sup>*)"
    by (simp add: toy_joined_reach)
qed

section \<open>The claims\<close>

text \<open>
  C1. For every pair of connections (moving, dest), \<open>connect\<close> computes the inferior and
  superior counterparts as the specification words them, and tries the pairs
  (moving-inferior, dest-superior), (moving-superior, dest-inferior), (moving, dest) in
  this order, a pair being there when both of its connections are: the result of
  \<open>connect\<close> is the result of \<open>moveAndConnect\<close> on the first pair that passes the
  compatibility check, so no later pair is attempted, and is the failure report when no
  pair passes. On a pair that passes, \<open>moveAndConnect\<close> joins the two connections
  (\<open>dest.connect(moving)\<close>) and answers true, unless severing the child side ends in a
  \<open>TypeError\<close> because that side has no inferior connection.
\<close>

theorem connect_tries_pairs_in_order:
  "getInferiorConnection G (world s) c = inferior_counterpart G (world s) c
   \<and> getSuperiorConnection G (world s) c = superior_counterpart G (world s) c
   \<and> connect G s (Some m) (Some d) =
       (case find (compatible G (world s)) (candidate_pairs G (world s) m d) of
          Some (a, b) \<Rightarrow> moveAndConnect G s (Some a) (Some b)
        | None \<Rightarrow>
            (Normal False,
             warn (''Connection failed with error: '' @
                   conn_reasonText G (conn_canConnectWithReason G (world s) d m)) s))
   \<and> (\<forall>a b. compatible G (world s) (a, b) \<longrightarrow>
          moveAndConnect G s (Some a) (Some b) =
            (case disconnectChild G s a b of
               (TypeError, s1) \<Rightarrow> (TypeError, s1)
             | (Normal u, s1) \<Rightarrow>
                 (Normal True,
                  s1\<lparr>world := conn_connect G b a
                        (if conn_isSuperior G b then world s1
                         else block_positionNearConnection G
                                (block_getRootBlock G (world s1) (conn_getSourceBlock G a))
                                a b (world s1))\<rparr>)))"
proof (intro conjI allI impI)
  show "getInferiorConnection G (world s) c = inferior_counterpart G (world s) c"
    by (rule getInferiorConnection_counterpart)
  show "getSuperiorConnection G (world s) c = superior_counterpart G (world s) c"
    by (rule getSuperiorConnection_counterpart)
  show "connect G s (Some m) (Some d) =
       (case find (compatible G (world s)) (candidate_pairs G (world s) m d) of
          Some (a, b) \<Rightarrow> moveAndConnect G s (Some a) (Some b)
        | None \<Rightarrow>
            (Normal False,
             warn (''Connection failed with error: '' @
                   conn_reasonText G (conn_canConnectWithReason G (world s) d m)) s))"
    by (rule connect_order)
next
  fix a b assume "compatible G (world s) (a, b)"
  then show "moveAndConnect G s (Some a) (Some b) =
            (case disconnectChild G s a b of
               (TypeError, s1) \<Rightarrow> (TypeError, s1)
             | (Normal u, s1) \<Rightarrow>
                 (Normal True,
                  s1\<lparr>world := conn_connect G b a
                        (if conn_isSuperior G b then world s1
                         else block_positionNearConnection G
                                (block_getRootBlock G (world s1) (conn_getSourceBlock G a))
                                a b (world s1))\<rparr>))"
    by (rule moveAndConnect_compatible)
qed

text \<open>
  In the small editor, moving connection 9 (the next connection of block 2) to connection
  2 (a value input of block 0): the first pair (8, 2) does not pass, the second pair
  (9, 0) does and is joined, and the third pair (9, 2) is not reached.
\<close>

theorem connect_tries_pairs_in_order_witness:
  "candidate_pairs toy_graph (world toy_start) 9 2 = [(8, 2), (9, 0), (9, 2)]
   \<and> find (compatible toy_graph (world toy_start)) (candidate_pairs toy_graph (world toy_start) 9 2)
       = Some (9, 0)
   \<and> connect toy_graph toy_start (Some 9) (Some 2) = moveAndConnect toy_graph toy_start (Some 9) (Some 0)
   \<and> fst (connect toy_graph toy_start (Some 9) (Some 2)) = Normal True
   \<and> targets (world (snd (connect toy_graph toy_start (Some 9) (Some 2)))) 0 = Some 9
   \<and> targets (world (snd (connect toy_graph toy_start (Some 9) (Some 2)))) 2 = None"
proof -
  have p: "candidate_pairs toy_graph (world toy_start) 9 2 = [(8, 2), (9, 0), (9, 2)]"
    by code_simp
  have f: "find (compatible toy_graph (world toy_start))
             (candidate_pairs toy_graph (world toy_start) 9 2) = Some (9, 0)"
    by code_simp
  have e: "connect toy_graph toy_start (Some 9) (Some 2)
             = moveAndConnect toy_graph toy_start (Some 9) (Some 0)"
    using connect_tries_pairs_in_order[of toy_graph toy_start 9 9 2, THEN conjunct2, THEN conjunct2,
            THEN conjunct1] f
    by simp
  have j: "fst (moveAndConnect toy_graph toy_start (Some 9) (Some 0)) = Normal True
           \<and> targets (world (snd (moveAndConnect toy_graph toy_start (Some 9) (Some 0)))) 0 = Some 9
           \<and> targets (world (snd (moveAndConnect toy_graph toy_start (Some 9) (Some 0)))) 2 = None"
    by code_simp
  show ?thesis using p f e j by simp
qed

text \<open>
  C2. A successful \<open>connect\<close> joins the first candidate pair that passes the
  compatibility check. If the source blocks of that pair have the same root block, it
  first disconnects the inferior connection on the descendant side (that of the
  destination connection if the destination block is among the descendants of the
  moving block, else that of the moving connection), then repositions if the
  destination is inferior, then joins. And if the graph's primitives do what
  \<open>graph_contract\<close> says, and the graph before had no cycle and answered root and
  descendants in keeping with its parents, the graph after a successful \<open>connect\<close> has no
  cycle: after the severing the two blocks have no common ancestor.
\<close>

theorem connect_severs_descendant_side_and_makes_no_cycle:
  assumes cn: "connect G s (Some m) (Some d) = (Normal True, s')"
  shows "\<exists>a b. find (compatible G (world s)) (candidate_pairs G (world s) m d) = Some (a, b)
          \<and> (block_getRootBlock G (world s) (conn_getSourceBlock G a)
                = block_getRootBlock G (world s) (conn_getSourceBlock G b) \<longrightarrow>
              (\<exists>c. getInferiorConnection G (world s)
                      (if conn_getSourceBlock G b
                            \<in> set (block_getDescendants G (world s) (conn_getSourceBlock G a))
                       then b else a) = Some c
                   \<and> world s' = conn_connect G b a
                        (if conn_isSuperior G b then conn_disconnect G c (world s)
                         else block_positionNearConnection G
                                (block_getRootBlock G (conn_disconnect G c (world s))
                                   (conn_getSourceBlock G a))
                                a b (conn_disconnect G c (world s)))))
          \<and> (graph_contract G \<and> coherent G (world s) \<and> cycle_free G (world s) \<longrightarrow>
                cycle_free G (world s'))"
proof (cases "find (compatible G (world s)) (candidate_pairs G (world s) m d)")
  case None
  then show ?thesis using cn by (simp add: connect_order)
next
  case (Some p)
  obtain a b where p: "p = (a, b)" by (cases p)
  have mc: "moveAndConnect G s (Some a) (Some b) = (Normal True, s')"
    using cn Some p by (simp add: connect_order)
  have "graph_contract G \<and> coherent G (world s) \<and> cycle_free G (world s) \<longrightarrow>
          cycle_free G (world s')"
    using moveAndConnect_cycle_free[OF _ _ _ mc] by blast
  then show ?thesis
    using Some p moveAndConnect_severs_first[OF mc] by blast
qed

text \<open>In the small editor with block 2 below block 0, moving connection 0 (the previous
  connection of block 0) to connection 9 (the next connection of block 2): the two
  blocks have the same root, block 2 is a descendant of block 0, so connection 8, the
  previous connection of block 2, is disconnected before connection 9 is joined to
  connection 0; block 0 then hangs below block 2 and the graph has no cycle.\<close>

theorem connect_severs_descendant_side_and_makes_no_cycle_witness:
  "graph_contract toy_graph
   \<and> coherent toy_graph (world toy_joined)
   \<and> cycle_free toy_graph (world toy_joined)
   \<and> find (compatible toy_graph (world toy_joined)) (candidate_pairs toy_graph (world toy_joined) 0 9)
       = Some (0, 9)
   \<and> block_getRootBlock toy_graph (world toy_joined) (conn_getSourceBlock toy_graph 0)
       = block_getRootBlock toy_graph (world toy_joined) (conn_getSourceBlock toy_graph 9)
   \<and> fst (connect toy_graph toy_joined (Some 0) (Some 9)) = Normal True
   \<and> targets (world (snd (connect toy_graph toy_joined (Some 0) (Some 9)))) 8 = None
   \<and> targets (world (snd (connect toy_graph toy_joined (Some 0) (Some 9)))) 0 = Some 9
   \<and> cycle_free toy_graph (world (snd (connect toy_graph toy_joined (Some 0) (Some 9))))"
proof -
  have r: "fst (connect toy_graph toy_joined (Some 0) (Some 9)) = Normal True
           \<and> targets (world (snd (connect toy_graph toy_joined (Some 0) (Some 9)))) 8 = None
           \<and> targets (world (snd (connect toy_graph toy_joined (Some 0) (Some 9)))) 0 = Some 9"
    by code_simp
  have f: "find (compatible toy_graph (world toy_joined))
             (candidate_pairs toy_graph (world toy_joined) 0 9) = Some (0, 9)
           \<and> block_getRootBlock toy_graph (world toy_joined) (conn_getSourceBlock toy_graph 0)
               = block_getRootBlock toy_graph (world toy_joined) (conn_getSourceBlock toy_graph 9)"
    by code_simp
  have cn: "connect toy_graph toy_joined (Some 0) (Some 9)
              = (Normal True, snd (connect toy_graph toy_joined (Some 0) (Some 9)))"
    using r by (simp add: prod_eq_iff)
  have "cycle_free toy_graph (world (snd (connect toy_graph toy_joined (Some 0) (Some 9))))"
    using connect_severs_descendant_side_and_makes_no_cycle[OF cn]
      toy_contract toy_joined_coherent toy_joined_cycle_free
    by blast
  then show ?thesis
    using r f toy_contract toy_joined_coherent toy_joined_cycle_free by simp
qed

text \<open>
  C3. For every marker location M and cursor location C such that M or C is null, or M
  is of kind Field, Block or Stack, or C is of kind Field or Workspace, \<open>modify\<close> returns
  failure after reporting one warning, and nothing else of the state changes: the
  connection graph is the same (no connection added or removed, no block moved).
\<close>

theorem modify_rejects_invalid_pairs:
  assumes "marker s = None \<or> cursor s = None
           \<or> (\<exists>M. marker s = Some M \<and> (getType M = FIELD \<or> getType M = BLOCK \<or> getType M = STACK))
           \<or> (\<exists>C. cursor s = Some C \<and> (getType C = FIELD \<or> getType C = WORKSPACE))"
  shows "(\<exists>msg. modify G s = (Normal False, warn msg s)) \<and> world (snd (modify G s)) = world s"
proof -
  have "\<exists>msg. modify G s = (Normal False, warn msg s)"
  proof (cases "marker s")
    case None
    then have "modify G s = (Normal False, warn ''Cannot insert with no marked node.'' s)"
      by (simp add: modify_def)
    then show ?thesis ..
  next
    case (Some M)
    note M = this
    show ?thesis
    proof (cases "cursor s")
      case None
      then have "modify G s = (Normal False, warn ''Cannot insert with no cursor node.'' s)"
        using M by (simp add: modify_def)
      then show ?thesis ..
    next
      case (Some C)
      then have *: "getType M = FIELD \<or> getType M = BLOCK \<or> getType M = STACK
                    \<or> getType C = FIELD \<or> getType C = WORKSPACE"
        using M assms by auto
      have "modify G s =
              (Normal False,
               warn (if getType M = FIELD then ''Should not have been able to mark a field.''
                     else if getType M = BLOCK then ''Should not have been able to mark a block.''
                     else if getType M = STACK then ''Should not have been able to mark a stack.''
                     else if getType C = FIELD then ''Cannot attach a field to anything else.''
                     else ''Cannot attach a workspace to anything else.'') s)"
        using M Some * by (auto simp: modify_def Let_def)
      then show ?thesis ..
    qed
  qed
  moreover from this have "world (snd (modify G s)) = world s"
    by (auto simp: warn_def)
  ultimately show ?thesis by simp
qed

text \<open>In the small editor with the cursor on a block and the marker on a field.\<close>

theorem modify_rejects_invalid_pairs_witness:
  "marker (toy_start\<lparr>cursor := Some (BlockNode 1), marker := Some (FieldNode 7)\<rparr>) = Some (FieldNode 7)
   \<and> getType (FieldNode 7) = FIELD
   \<and> (\<exists>msg. modify toy_graph (toy_start\<lparr>cursor := Some (BlockNode 1), marker := Some (FieldNode 7)\<rparr>)
             = (Normal False, warn msg (toy_start\<lparr>cursor := Some (BlockNode 1), marker := Some (FieldNode 7)\<rparr>)))
   \<and> world (snd (modify toy_graph (toy_start\<lparr>cursor := Some (BlockNode 1), marker := Some (FieldNode 7)\<rparr>)))
       = world toy_start"
  using modify_rejects_invalid_pairs
          [of "toy_start\<lparr>cursor := Some (BlockNode 1), marker := Some (FieldNode 7)\<rparr>" toy_graph]
  by simp

text \<open>
  C4. If \<open>connect\<close> finds no compatible pair among the three candidate pairs, it reports
  the diagnostic that the graph's compatibility check raises on the original connections
  (one warning, \<open>Connection failed with error:\<close> and the reason), returns failure, and
  changes nothing else. And whenever \<open>connect\<close> does not return true, whatever its
  arguments, the graph is as it was: nothing is severed without the join that follows.
\<close>

theorem connect_failure_reports_and_mutates_nothing:
  "(find (compatible G (world s)) (candidate_pairs G (world s) m d) = None \<longrightarrow>
      checkConnection G (world s) d m
        = Some (conn_reasonText G (conn_canConnectWithReason G (world s) d m))
      \<and> connect G s (Some m) (Some d) =
          (Normal False,
           s\<lparr>logged := logged s @
                [(''warn'', ''Connection failed with error: '' @
                            conn_reasonText G (conn_canConnectWithReason G (world s) d m))]\<rparr>))
   \<and> (fst (connect G s a b) \<noteq> Normal True \<longrightarrow> world (snd (connect G s a b)) = world s)"
proof (intro conjI impI)
  assume n: "find (compatible G (world s)) (candidate_pairs G (world s) m d) = None"
  then have "\<not> compatible G (world s) (m, d)"
    unfolding candidate_pairs_def append_assoc[symmetric] by (rule find_None_last)
  then show "checkConnection G (world s) d m
        = Some (conn_reasonText G (conn_canConnectWithReason G (world s) d m))"
    by (rule checkConnection_incompatible)
  show "connect G s (Some m) (Some d) =
          (Normal False,
           s\<lparr>logged := logged s @
                [(''warn'', ''Connection failed with error: '' @
                            conn_reasonText G (conn_canConnectWithReason G (world s) d m))]\<rparr>)"
    using n by (simp add: connect_order warn_def)
next
  assume "fst (connect G s a b) \<noteq> Normal True"
  then show "world (snd (connect G s a b)) = world s"
    by (rule connect_not_True_world)
qed

text \<open>In the small editor, moving connection 4 (the output of block 1) to connection 1
  (the next connection of block 0): no pair passes.\<close>

theorem connect_failure_reports_and_mutates_nothing_witness:
  "find (compatible toy_graph (world toy_start)) (candidate_pairs toy_graph (world toy_start) 4 1) = None
   \<and> connect toy_graph toy_start (Some 4) (Some 1) =
       (Normal False,
        toy_start\<lparr>logged := logged toy_start @ [(''warn'', ''Connection failed with error: types'')]\<rparr>)
   \<and> world (snd (connect toy_graph toy_start (Some 4) (Some 1))) = world toy_start"
proof -
  have f: "find (compatible toy_graph (world toy_start))
             (candidate_pairs toy_graph (world toy_start) 4 1) = None"
    by code_simp
  have r: "conn_reasonText toy_graph (conn_canConnectWithReason toy_graph (world toy_start) 1 4)
             = ''types''"
    by code_simp
  have e: "connect toy_graph toy_start (Some 4) (Some 1) =
       (Normal False,
        toy_start\<lparr>logged := logged toy_start @ [(''warn'', ''Connection failed with error: types'')]\<rparr>)"
    using connect_failure_reports_and_mutates_nothing
            [of toy_graph toy_start 4 1 "Some 4" "Some 1", THEN conjunct1] f r
    by simp
  show ?thesis using f e by simp
qed

text \<open>
  C5. The claim is that for every block B and destination connection D, \<open>insertBlock\<close>
  offers the connections of B that D's role determines and, when none of them is
  compatible, reports that the block cannot be inserted and returns failure. The code
  does not do so for every block: when D is an output connection and B has an input
  without a connection (a dummy input), which the loop over \<open>block.inputList\<close> reaches
  unless an input-value connection before it passes the compatibility check,
  \<open>inputConnection.type\<close> is read from \<open>null\<close> and \<open>insertBlock\<close> ends in a
  \<open>TypeError\<close>, with no report and the state as it was, also when a later input of B
  could have been joined. For the three other roles of D, and for a block all of whose
  inputs have a connection, \<open>insertBlock\<close> does what the claim says: it offers B's next
  connection for a previous connection, B's previous connection for a next connection,
  B's output connection for an input, and for an output B's input connections of type
  input value, in declaration order; its result is the result of \<open>moveAndConnect\<close> on
  the first offered connection that passes the compatibility check, and if none does,
  in particular if D is an input and B has no output connection, it warns that the
  block cannot be inserted and returns failure. Whenever \<open>insertBlock\<close> does not return
  true, the graph is as it was.
\<close>

theorem insertBlock_throws_on_input_without_connection:
  "(conn_type G d = OUTPUT_VALUE
      \<and> None \<in> set (block_inputList G (world s) b)
      \<and> find (\<lambda>c. compatible G (world s) (c, d))
            (filter (\<lambda>c. conn_type G c = INPUT_VALUE)
               (inputs_before_null (block_inputList G (world s) b))) = None \<longrightarrow>
        insertBlock G s b d = (TypeError, s))
   \<and> (conn_type G d \<noteq> OUTPUT_VALUE \<or> None \<notin> set (block_inputList G (world s) b) \<longrightarrow>
        insertBlock G s b d =
          (case find (\<lambda>c. compatible G (world s) (c, d)) (offered G (world s) b d) of
             Some c \<Rightarrow> moveAndConnect G s (Some c) (Some d)
           | None \<Rightarrow>
               (Normal False, warn ''This block can not be inserted at the marked location.'' s)))
   \<and> (conn_type G d = INPUT_VALUE \<and> block_outputConnection G (world s) b = None \<longrightarrow>
        insertBlock G s b d =
          (Normal False, warn ''This block can not be inserted at the marked location.'' s))
   \<and> (fst (insertBlock G s b d) \<noteq> Normal True \<longrightarrow> world (snd (insertBlock G s b d)) = world s)"
proof (intro conjI impI)
  assume "conn_type G d = OUTPUT_VALUE
      \<and> None \<in> set (block_inputList G (world s) b)
      \<and> find (\<lambda>c. compatible G (world s) (c, d))
            (filter (\<lambda>c. conn_type G c = INPUT_VALUE)
               (inputs_before_null (block_inputList G (world s) b))) = None"
  then show "insertBlock G s b d = (TypeError, s)"
    by (simp add: insertBlock_null_input)
next
  assume "conn_type G d \<noteq> OUTPUT_VALUE \<or> None \<notin> set (block_inputList G (world s) b)"
  then show "insertBlock G s b d =
          (case find (\<lambda>c. compatible G (world s) (c, d)) (offered G (world s) b d) of
             Some c \<Rightarrow> moveAndConnect G s (Some c) (Some d)
           | None \<Rightarrow>
               (Normal False, warn ''This block can not be inserted at the marked location.'' s))"
    by (rule insertBlock_offers)
next
  assume a: "conn_type G d = INPUT_VALUE \<and> block_outputConnection G (world s) b = None"
  then have "offered G (world s) b d = []"
    by (simp add: offered_def)
  moreover have "conn_type G d \<noteq> OUTPUT_VALUE \<or> None \<notin> set (block_inputList G (world s) b)"
    using a by simp
  ultimately show "insertBlock G s b d =
          (Normal False, warn ''This block can not be inserted at the marked location.'' s)"
    by (simp add: insertBlock_offers)
next
  assume "fst (insertBlock G s b d) \<noteq> Normal True"
  then show "world (snd (insertBlock G s b d)) = world s"
    by (rule insertBlock_not_True_world)
qed

text \<open>In the small editor, with connection 4 (the output of block 1) as the destination:
  block 2, a statement block, has a label before its value inputs 10 and 11, and
  inserting it throws, although connection 10 passes the compatibility check with
  connection 4. With connection 2 (a value input of block 0) as the destination:
  block 2 has no output connection and cannot be inserted; block 1 offers its output,
  connection 4, which is joined.\<close>

theorem insertBlock_throws_on_input_without_connection_witness:
  "conn_type toy_graph 4 = OUTPUT_VALUE
   \<and> block_inputList toy_graph (world toy_start) 2 = [None, Some 10, Some 11]
   \<and> compatible toy_graph (world toy_start) (10, 4)
   \<and> insertBlock toy_graph toy_start 2 4 = (TypeError, toy_start)
   \<and> conn_type toy_graph 2 = INPUT_VALUE
   \<and> block_outputConnection toy_graph (world toy_start) 2 = None
   \<and> insertBlock toy_graph toy_start 2 2 =
       (Normal False, warn ''This block can not be inserted at the marked location.'' toy_start)
   \<and> offered toy_graph (world toy_start) 1 2 = [4]
   \<and> insertBlock toy_graph toy_start 1 2 = moveAndConnect toy_graph toy_start (Some 4) (Some 2)
   \<and> fst (insertBlock toy_graph toy_start 1 2) = Normal True
   \<and> targets (world (snd (insertBlock toy_graph toy_start 1 2))) 2 = Some 4"
proof -
  have t: "conn_type toy_graph 4 = OUTPUT_VALUE
           \<and> block_inputList toy_graph (world toy_start) 2 = [None, Some 10, Some 11]
           \<and> compatible toy_graph (world toy_start) (10, 4)"
    by code_simp
  have u: "None \<in> set (block_inputList toy_graph (world toy_start) 2)
           \<and> find (\<lambda>c. compatible toy_graph (world toy_start) (c, 4))
               (filter (\<lambda>c. conn_type toy_graph c = INPUT_VALUE)
                  (inputs_before_null (block_inputList toy_graph (world toy_start) 2))) = None"
    using t by simp
  have x: "insertBlock toy_graph toy_start 2 4 = (TypeError, toy_start)"
    using insertBlock_throws_on_input_without_connection[of toy_graph 4 toy_start 2, THEN conjunct1]
      t u
    by simp
  have a: "conn_type toy_graph 2 = INPUT_VALUE
           \<and> block_outputConnection toy_graph (world toy_start) 2 = None"
    by code_simp
  have o: "offered toy_graph (world toy_start) 1 2 = [4]"
    by code_simp
  have f: "find (\<lambda>c. compatible toy_graph (world toy_start) (c, 2))
             (offered toy_graph (world toy_start) 1 2) = Some 4"
    by code_simp
  have n: "insertBlock toy_graph toy_start 2 2 =
       (Normal False, warn ''This block can not be inserted at the marked location.'' toy_start)"
    using insertBlock_throws_on_input_without_connection[of toy_graph 2 toy_start 2,
            THEN conjunct2, THEN conjunct2, THEN conjunct1] a
    by simp
  have y: "insertBlock toy_graph toy_start 1 2 = moveAndConnect toy_graph toy_start (Some 4) (Some 2)"
    using insertBlock_throws_on_input_without_connection[of toy_graph 2 toy_start 1,
            THEN conjunct2, THEN conjunct1] a f
    by simp
  have j: "fst (moveAndConnect toy_graph toy_start (Some 4) (Some 2)) = Normal True
           \<and> targets (world (snd (moveAndConnect toy_graph toy_start (Some 4) (Some 2)))) 2 = Some 4"
    by code_simp
  show ?thesis using t x a o n y j by simp
qed

text \<open>
  C6. When the marker M is a Workspace location and the cursor C is a Connection, Block
  or Stack location: if C is a connection with the tag input or next, \<open>modify\<close> warns
  and returns failure, changing nothing else; otherwise it takes the source block of C
  and, if that block is a shadow block, warns and returns failure; else it unplugs the
  block if it has a parent, moves it to M's workspace coordinate, and returns success.
\<close>

theorem modify_moves_block_to_workspace:
  assumes "marker s = Some (WorkspaceNode ws xy)"
      and "cursor s = Some C"
      and "isConnection C \<or> getType C = BLOCK \<or> getType C = STACK"
  shows "moved_block G C \<noteq> None
     \<and> modify G s =
     (if getType C = CONNECTION INPUT \<or> getType C = CONNECTION NEXT then
        (Normal False, warn ''Cannot move a next or input connection to the workspace.'' s)
      else if block_isShadow G (world s) (the (moved_block G C)) then
        (Normal False, warn ''Cannot move a shadow block to the workspace.'' s)
      else
        (Normal True,
         s\<lparr>world := block_moveTo G (the (moved_block G C)) xy
               (if block_getParent G (world s) (the (moved_block G C)) \<noteq> None
                then block_unplug G (the (moved_block G C)) (world s) else world s)\<rparr>))"
  using assms
  by (cases C) (auto simp: modify_def Let_def modify_moveToWorkspace_def moved_block_def)

text \<open>In the small editor: the marker on the workspace at (50, 50), the cursor on the
  stack of block 2, which has no parent. The block moves to (50, 50).\<close>

theorem modify_moves_block_to_workspace_witness:
  "marker toy_stack_to_workspace = Some (WorkspaceNode 0 (50, 50))
   \<and> cursor toy_stack_to_workspace = Some (StackNode 2)
   \<and> getType (StackNode 2) = STACK
   \<and> modify toy_graph toy_stack_to_workspace =
       (Normal True,
        toy_stack_to_workspace\<lparr>world := (world toy_stack_to_workspace)
           \<lparr>positions := (positions (world toy_stack_to_workspace))(2 := (50, 50))\<rparr>\<rparr>)"
proof -
  have a: "marker toy_stack_to_workspace = Some (WorkspaceNode 0 (50, 50))
           \<and> cursor toy_stack_to_workspace = Some (StackNode 2)"
    by (simp add: toy_stack_to_workspace_def)
  have b: "moved_block toy_graph (StackNode 2) = Some 2
           \<and> \<not> block_isShadow toy_graph (world toy_stack_to_workspace) 2
           \<and> block_getParent toy_graph (world toy_stack_to_workspace) 2 = None"
    by code_simp
  have m: "block_moveTo toy_graph 2 (50, 50) (world toy_stack_to_workspace)
             = (world toy_stack_to_workspace)
                 \<lparr>positions := (positions (world toy_stack_to_workspace))(2 := (50, 50))\<rparr>"
    by (simp add: toy_graph_def)
  show ?thesis
    using modify_moves_block_to_workspace
            [of toy_stack_to_workspace 0 "(50, 50)" "StackNode 2" toy_graph, THEN conjunct2] a b m
    by simp
qed

text \<open>
  C7. The claim is that \<open>disconnectBlocks\<close> is a no-op with a log-level message when
  the cursor location is not a connection. The code does not do so when the cursor
  holds no location: \<open>disconnectBlocks\<close> calls \<open>isConnection()\<close> on \<open>null\<close> and ends in
  a \<open>TypeError\<close>, with no message and the state as it was. With the cursor on a
  location it does what the claim says: it changes nothing but the log, to which it
  adds one message of level log, when the location is not a connection or the
  connection is not joined, and when the source block of the inferior side of the live
  join is a shadow block; otherwise it disconnects the superior connection of the join,
  bumps the inferior connection away from the superior one, brings the root block of
  the superior side to the front, and sets the cursor to the connection node of the
  superior connection.
\<close>

theorem disconnectBlocks_throws_without_cursor_location:
  "disconnectBlocks G U s =
     (case cursor s of
        None \<Rightarrow> (TypeError, s)
      | Some n \<Rightarrow>
          (case live_join G (world s) n of
             None \<Rightarrow>
               (Normal (),
                s\<lparr>logged := logged s @
                     [(''log'',
                       if isConnection n then ''Cannot disconnect unconnected connection''
                       else ''Cannot disconnect blocks when the cursor is not on a connection'')]\<rparr>)
           | Some (superiorConnection, inferiorConnection) \<Rightarrow>
               (if block_isShadow G (world s) (conn_getSourceBlock G inferiorConnection) then
                  (Normal (),
                   s\<lparr>logged := logged s @ [(''log'', ''Cannot disconnect a shadow block'')]\<rparr>)
                else
                  (let w1 = conn_disconnect G superiorConnection (world s);
                       w2 = conn_bumpAwayFrom G inferiorConnection superiorConnection w1;
                       w3 = block_bringToFront G
                              (block_getRootBlock G w2 (conn_getSourceBlock G superiorConnection)) w2
                   in (Normal (),
                       s\<lparr>world := w3,
                         cursor := Some (ConnectionNode (connection_tag_of U w3 superiorConnection)
                                           superiorConnection),
                         cursorShown := True\<rparr>)))))"
proof (cases "cursor s")
  case None
  then show ?thesis by (simp add: disconnectBlocks_def)
next
  case (Some n)
  show ?thesis
  proof (cases n)
    case (ConnectionNode t c)
    show ?thesis
    proof (cases "conn_targetConnection G (world s) c")
      case None
      then show ?thesis using Some ConnectionNode
        by (simp add: disconnectBlocks_def live_join_def isConnected_def log_def)
    next
      case (Some target)
      then show ?thesis using \<open>cursor s = Some n\<close> ConnectionNode
        by (simp add: disconnectBlocks_def live_join_def isConnected_def Let_def log_def
            cursor_setLocation_def createConnectionNode_def)
    qed
  qed (simp_all add: Some disconnectBlocks_def live_join_def log_def)
qed

text \<open>In the small editor at its start the cursor holds no location, and
  \<open>disconnectBlocks\<close> throws. With block 2 below block 0 and the cursor on connection 8,
  the previous connection of block 2: the join of connections 1 and 8 is severed and
  the cursor goes to connection 1, the superior one.\<close>

theorem disconnectBlocks_throws_without_cursor_location_witness:
  "cursor toy_start = None
   \<and> disconnectBlocks toy_graph toy_ui toy_start = (TypeError, toy_start)
   \<and> cursor toy_joined = Some (ConnectionNode PREVIOUS 8)
   \<and> live_join toy_graph (world toy_joined) (ConnectionNode PREVIOUS 8) = Some (1, 8)
   \<and> fst (disconnectBlocks toy_graph toy_ui toy_joined) = Normal ()
   \<and> cursor (snd (disconnectBlocks toy_graph toy_ui toy_joined)) = Some (ConnectionNode NEXT 1)
   \<and> targets (world (snd (disconnectBlocks toy_graph toy_ui toy_joined))) 1 = None
   \<and> targets (world (snd (disconnectBlocks toy_graph toy_ui toy_joined))) 8 = None"
proof -
  have z: "cursor toy_start = None"
    by (simp add: toy_start_def)
  have x: "disconnectBlocks toy_graph toy_ui toy_start = (TypeError, toy_start)"
    using disconnectBlocks_throws_without_cursor_location[of toy_graph toy_ui toy_start] z
    by simp
  have a: "cursor toy_joined = Some (ConnectionNode PREVIOUS 8)"
    by (simp add: toy_joined_def toy_start_def)
  have l: "live_join toy_graph (world toy_joined) (ConnectionNode PREVIOUS 8) = Some (1, 8)
           \<and> \<not> block_isShadow toy_graph (world toy_joined) (conn_getSourceBlock toy_graph 8)"
    by code_simp
  have w: "connection_tag_of toy_ui
             (block_bringToFront toy_graph
               (block_getRootBlock toy_graph
                 (conn_bumpAwayFrom toy_graph 8 1 (conn_disconnect toy_graph 1 (world toy_joined)))
                 (conn_getSourceBlock toy_graph 1))
               (conn_bumpAwayFrom toy_graph 8 1 (conn_disconnect toy_graph 1 (world toy_joined)))) 1
             = NEXT
           \<and> targets (block_bringToFront toy_graph
               (block_getRootBlock toy_graph
                 (conn_bumpAwayFrom toy_graph 8 1 (conn_disconnect toy_graph 1 (world toy_joined)))
                 (conn_getSourceBlock toy_graph 1))
               (conn_bumpAwayFrom toy_graph 8 1 (conn_disconnect toy_graph 1 (world toy_joined)))) 1
             = None
           \<and> targets (block_bringToFront toy_graph
               (block_getRootBlock toy_graph
                 (conn_bumpAwayFrom toy_graph 8 1 (conn_disconnect toy_graph 1 (world toy_joined)))
                 (conn_getSourceBlock toy_graph 1))
               (conn_bumpAwayFrom toy_graph 8 1 (conn_disconnect toy_graph 1 (world toy_joined)))) 8
             = None"
    by code_simp
  show ?thesis
    using disconnectBlocks_throws_without_cursor_location[of toy_graph toy_ui toy_joined] z x a l w
    by (simp add: Let_def)
qed

text \<open>
  C8. The claim is that no pair of a focus context and an action throws, whatever the
  cursor and the marker hold, a cursor with no location included. The code does throw:
  with focus on the workspace and a cursor that holds no location, the action
  \<open>disconnect\<close> ends in a \<open>TypeError\<close> (\<open>disconnectBlocks\<close> calls \<open>isConnection()\<close> on
  \<open>null\<close>), and the state is left as it was.
\<close>

theorem disconnect_without_cursor_location_throws:
  assumes "currentState s = STATE_WS" and "cursor s = None"
  shows "onBlocklyAction G U s actionNames_DISCONNECT = (TypeError, s)"
  using assms
  by (simp add: onBlocklyAction_def workspaceOnAction_def actionNames_defs handled_def
      disconnectBlocks_def)

text \<open>The small editor at its start is such a state.\<close>

theorem disconnect_without_cursor_location_throws_witness:
  "currentState toy_start = STATE_WS \<and> cursor toy_start = None
   \<and> actionNames_DISCONNECT = ''disconnect''
   \<and> onBlocklyAction toy_graph toy_ui toy_start ''disconnect'' = (TypeError, toy_start)"
proof -
  have a: "currentState toy_start = STATE_WS \<and> cursor toy_start = None"
    by (simp add: toy_start_def)
  show ?thesis
    using disconnect_without_cursor_location_throws[of toy_start toy_graph toy_ui] a
    by (simp add: actionNames_DISCONNECT_def)
qed

text \<open>
  C9, as stated, fails: the claim is that after an insert-from-flyout attempt that fails
  focus does not move to the workspace. In the small editor with focus on the flyout,
  block 2 selected and the marker on a value input of block 0, the action \<open>mark\<close>
  inserts from the flyout; block 2 has no output connection, so the insertion fails and
  both warnings are logged; focus is on the workspace afterwards.
\<close>

theorem failed_insert_from_flyout_moves_focus:
  "currentState toy_in_flyout = STATE_FLYOUT
   \<and> fst (onBlocklyAction toy_graph toy_ui toy_in_flyout ''mark'') = Normal True
   \<and> logged (snd (onBlocklyAction toy_graph toy_ui toy_in_flyout ''mark'')) =
       [(''warn'', ''This block can not be inserted at the marked location.''),
        (''warn'', ''Something went wrong while inserting a block from the flyout.'')]
   \<and> currentState (snd (onBlocklyAction toy_graph toy_ui toy_in_flyout ''mark'')) = STATE_WS"
  by code_simp

text \<open>
  C9, amended. The focus state machine goes from Flyout or Toolbox to Workspace only on
  the \<open>exit\<close> action or on an insert-from-flyout (the \<open>mark\<close> action in the Flyout
  context) that finds the flyout present and visible. Such an insert, unless it throws,
  moves focus to the Workspace whether the insertion succeeded or failed; an insert that
  finds no visible flyout leaves focus on the Flyout.
\<close>

theorem focus_returns_to_workspace_on_exit_or_insert:
  assumes "currentState s \<noteq> STATE_WS"
  shows "(currentState (snd (onBlocklyAction G U s name)) = STATE_WS \<longrightarrow>
            name = actionNames_EXIT
            \<or> (currentState s = STATE_FLYOUT \<and> name = actionNames_MARK \<and> flyoutShown U (world s)))
       \<and> (currentState s = STATE_FLYOUT \<and> flyoutShown U (world s)
            \<and> fst (onBlocklyAction G U s actionNames_MARK) \<noteq> TypeError \<longrightarrow>
            currentState (snd (onBlocklyAction G U s actionNames_MARK)) = STATE_WS)
       \<and> (currentState s = STATE_FLYOUT \<and> \<not> flyoutShown U (world s) \<longrightarrow>
            currentState (snd (onBlocklyAction G U s actionNames_MARK)) = STATE_FLYOUT)"
proof (intro conjI impI)
  assume "currentState (snd (onBlocklyAction G U s name)) = STATE_WS"
  with assms show "name = actionNames_EXIT
            \<or> (currentState s = STATE_FLYOUT \<and> name = actionNames_MARK \<and> flyoutShown U (world s))"
    by (rule dispatch_to_workspace_only)
next
  assume "currentState s = STATE_FLYOUT \<and> flyoutShown U (world s)
            \<and> fst (onBlocklyAction G U s actionNames_MARK) \<noteq> TypeError"
  then show "currentState (snd (onBlocklyAction G U s actionNames_MARK)) = STATE_WS"
    by (simp add: dispatch_mark_in_flyout)
next
  assume "currentState s = STATE_FLYOUT \<and> \<not> flyoutShown U (world s)"
  then show "currentState (snd (onBlocklyAction G U s actionNames_MARK)) = STATE_FLYOUT"
    by (simp add: dispatch_mark_without_flyout)
qed

text \<open>In the small editor with focus on the flyout and no marker: the flyout is shown,
  the insert does not throw, and focus goes to the workspace.\<close>

theorem focus_returns_to_workspace_on_exit_or_insert_witness:
  "currentState (toy_start\<lparr>currentState := STATE_FLYOUT\<rparr>) = STATE_FLYOUT
   \<and> STATE_FLYOUT \<noteq> STATE_WS
   \<and> flyoutShown toy_ui (world (toy_start\<lparr>currentState := STATE_FLYOUT\<rparr>))
   \<and> fst (onBlocklyAction toy_graph toy_ui (toy_start\<lparr>currentState := STATE_FLYOUT\<rparr>) actionNames_MARK)
       = Normal True
   \<and> currentState
        (snd (onBlocklyAction toy_graph toy_ui (toy_start\<lparr>currentState := STATE_FLYOUT\<rparr>) actionNames_MARK))
       = STATE_WS"
proof -
  have a: "currentState (toy_start\<lparr>currentState := STATE_FLYOUT\<rparr>) = STATE_FLYOUT"
    by simp
  have b: "flyoutShown toy_ui (world (toy_start\<lparr>currentState := STATE_FLYOUT\<rparr>))"
    by code_simp
  have c: "fst (onBlocklyAction toy_graph toy_ui (toy_start\<lparr>currentState := STATE_FLYOUT\<rparr>)
                  actionNames_MARK) = Normal True"
    by code_simp
  show ?thesis
    using focus_returns_to_workspace_on_exit_or_insert
            [of "toy_start\<lparr>currentState := STATE_FLYOUT\<rparr>" toy_graph toy_ui actionNames_MARK] a b c
    by simp
qed

text \<open>
  C10. \<open>focusToolbox\<close> and \<open>focusFlyout\<close>, when the marker holds no location, set the
  marker to the location the cursor holds on entry; when the marker already holds a
  location they leave it unchanged. For \<open>focusToolbox\<close> this is so also when it ends in
  a \<open>TypeError\<close> for want of a toolbox: the marker is set before.
\<close>

theorem focusing_toolbox_or_flyout_marks_at_cursor:
  "marker (snd (focusToolbox U s)) = (if marker s = None then cursor s else marker s)
   \<and> marker (focusFlyout U s) = (if marker s = None then cursor s else marker s)"
  by (simp only: focusToolbox_marker focusFlyout_marker)

text \<open>In the small editor with the cursor on the workspace and no marker, with a toolbox
  for \<open>focusToolbox\<close>; and with the marker already on a connection, which stays.\<close>

theorem focusing_toolbox_or_flyout_marks_at_cursor_witness:
  "marker toy_on_workspace = None
   \<and> cursor toy_on_workspace = Some (WorkspaceNode 0 (100, 100))
   \<and> fst (focusToolbox toy_ui_toolbox toy_on_workspace) = Normal ()
   \<and> marker (snd (focusToolbox toy_ui_toolbox toy_on_workspace)) = Some (WorkspaceNode 0 (100, 100))
   \<and> marker (focusFlyout toy_ui toy_on_workspace) = Some (WorkspaceNode 0 (100, 100))
   \<and> cursor (focusFlyout toy_ui toy_on_workspace) = Some (BlockNode 2)
   \<and> marker (focusFlyout toy_ui toy_in_flyout) = Some (ConnectionNode INPUT 2)"
proof -
  have a: "marker toy_on_workspace = None
           \<and> cursor toy_on_workspace = Some (WorkspaceNode 0 (100, 100))
           \<and> marker toy_in_flyout = Some (ConnectionNode INPUT 2)"
    by (simp add: toy_on_workspace_def toy_in_flyout_def toy_start_def)
  have b: "fst (focusToolbox toy_ui_toolbox toy_on_workspace) = Normal ()
           \<and> cursor (focusFlyout toy_ui toy_on_workspace) = Some (BlockNode 2)"
    by code_simp
  show ?thesis
    using focusing_toolbox_or_flyout_marks_at_cursor[of toy_ui_toolbox toy_on_workspace]
      focusing_toolbox_or_flyout_marks_at_cursor[of toy_ui toy_on_workspace]
      focusing_toolbox_or_flyout_marks_at_cursor[of toy_ui toy_in_flyout] a b
    by simp
qed

end
